theory Spec2Isabelle
  imports Complex_Main "HOL-Library.Sublist"
begin

section \<open>The model packaging script \<open>model_download.py\<close>\<close>

text \<open>
  The script validates a model file, writes a metadata text file beside it, shells out to
  \<open>zip\<close> and hands the archive to the notebook's file-transfer function. Everything it does
  is an effect on the outside world, so the embedding threads a \<open>world\<close> through every
  function: the filesystem as a map from paths to file attributes, and a trace of the calls
  the script makes to the outside (lines printed, files written, commands run, transfers
  started), in program order.

  What the operating system and the notebook runtime answer is not decided by the script.
  It is a parameter, the record \<open>platform\<close>; the theorems hold for every platform.

  Strings are byte strings: a character outside ASCII is its UTF-8 bytes. Paths are taken
  to be free of NUL bytes, as every path the operating system can hold is. Standard output
  is taken to accept every line: \<open>print\<close> appends its line to the trace, and a \<open>print\<close> that
  raises (an output encoding without the symbols of the messages, a closed pipe) is not
  modelled.
\<close>

subsection \<open>World, platform and results\<close>

record file_stat =
  st_size :: nat
  st_ctime :: real

type_synonym filesystem = "string \<rightharpoonup> file_stat"

datatype event =
    Print string
  | WriteFile string string
  | System string int
  | Download string

record world =
  files :: filesystem
  trace :: "event list"

text \<open>
  \<open>os_system cmd fs\<close> is the status \<open>os.system\<close> returns and the filesystem the command
  leaves behind. \<open>write_file path text fs\<close> is \<open>with open(path, 'w') as f: f.write(text)\<close>:
  the message of the exception it raised, if any, and the filesystem afterwards.
  \<open>files_download path fs\<close> is Colab's \<open>files.download\<close>: the message of the exception it
  raised, if any. \<open>format_2f n\<close> is the text of \<open>f"{n / (1024 * 1024):.2f}"\<close> for a byte
  count \<open>n\<close>, and \<open>str_float\<close> the text of a float inside an f-string; floating-point
  arithmetic and formatting are not modelled further.
\<close>

record platform =
  IN_COLAB :: bool
  os_system :: "string \<Rightarrow> filesystem \<Rightarrow> int \<times> filesystem"
  write_file :: "string \<Rightarrow> string \<Rightarrow> filesystem \<Rightarrow> string option \<times> filesystem"
  files_download :: "string \<Rightarrow> filesystem \<Rightarrow> string option"
  format_2f :: "nat \<Rightarrow> string"
  str_float :: "real \<Rightarrow> string"

text \<open>
  \<open>SystemExit\<close> is what \<open>sys.exit\<close> raises; it is not an \<open>Exception\<close>, so no handler of the
  script catches it. \<open>PyException\<close> stands for every exception that \<open>except Exception\<close>
  catches, with its message.
\<close>

datatype exn = SystemExit int | PyException string

datatype 'a result = Return 'a world | Raise exn world

fun world_of :: "'a result \<Rightarrow> world" where
  "world_of (Return _ w) = w"
| "world_of (Raise _ w) = w"

fun value_of :: "'a result \<Rightarrow> 'a option" where
  "value_of (Return v _) = Some v"
| "value_of (Raise _ _) = None"

text \<open>The exit status of the interpreter: 0 at the end of the script, the argument of
  \<open>sys.exit\<close>, and 1 for an exception nobody caught.\<close>

fun exit_code :: "'a result \<Rightarrow> int" where
  "exit_code (Return _ _) = 0"
| "exit_code (Raise (SystemExit n) _) = n"
| "exit_code (Raise (PyException _) _) = 1"

definition print :: "string \<Rightarrow> world \<Rightarrow> world" where
  "print s w = w\<lparr>trace := trace w @ [Print s]\<rparr>"

text \<open>The events a run added to the trace it started with.\<close>

definition new_events :: "world \<Rightarrow> world \<Rightarrow> event list" where
  "new_events w w' = drop (length (trace w)) (trace w')"

subsection \<open>The library functions the script calls\<close>

definition os_path_exists :: "world \<Rightarrow> string \<Rightarrow> bool" where
  "os_path_exists w path = (files w path \<noteq> None)"

definition os_path_getsize :: "world \<Rightarrow> string \<Rightarrow> exn + nat" where
  "os_path_getsize w path =
     (case files w path of
        None \<Rightarrow> Inl (PyException ''No such file or directory'')
      | Some f \<Rightarrow> Inr (st_size f))"

definition os_path_getctime :: "world \<Rightarrow> string \<Rightarrow> exn + real" where
  "os_path_getctime w path =
     (case files w path of
        None \<Rightarrow> Inl (PyException ''No such file or directory'')
      | Some f \<Rightarrow> Inr (st_ctime f))"

text \<open>\<open>posixpath.basename\<close>: what follows the last slash.\<close>

definition os_path_basename :: "string \<Rightarrow> string" where
  "os_path_basename p = rev (takeWhile (\<lambda>c. c \<noteq> CHR ''/'') (rev p))"

text \<open>\<open>str.rfind\<close> for a single character: the last index of it, or -1.\<close>

definition rfind :: "string \<Rightarrow> char \<Rightarrow> int" where
  "rfind s c =
     (if c \<in> set s
      then int (length s) - 1 - int (length (takeWhile (\<lambda>x. x \<noteq> c) (rev s)))
      else - 1)"

text \<open>
  \<open>posixpath.splitext\<close>. The extension starts at the last dot, if that dot comes after the
  last slash and some character between the two is not a dot; the loop that skips the
  leading dots of the file name is \<open>splitext_scan\<close>, true when it finds such a character.
\<close>

function splitext_scan :: "string \<Rightarrow> int \<Rightarrow> int \<Rightarrow> bool" where
  "splitext_scan p filenameIndex dotIndex =
     (if filenameIndex < dotIndex
      then (if take 1 (drop (nat filenameIndex) p) \<noteq> ''.'' then True
            else splitext_scan p (filenameIndex + 1) dotIndex)
      else False)"
  by pat_completeness auto
termination
  by (relation "measure (\<lambda>(p, filenameIndex, dotIndex). nat (dotIndex - filenameIndex))") auto

declare splitext_scan.simps [simp del]

definition os_path_splitext :: "string \<Rightarrow> string \<times> string" where
  "os_path_splitext p =
     (let sepIndex = rfind p CHR ''/'';
          dotIndex = rfind p CHR ''.''
      in if dotIndex > sepIndex \<and> splitext_scan p (sepIndex + 1) dotIndex
         then (take (nat dotIndex) p, drop (nat dotIndex) p)
         else (p, []))"

text \<open>\<open>str\<close> of an integer, in decimal.\<close>

function str_nat :: "nat \<Rightarrow> string" where
  "str_nat n =
     (if n < 10 then [char_of (48 + n)]
      else str_nat (n div 10) @ [char_of (48 + n mod 10)])"
  by pat_completeness auto
termination
  by (relation "measure id") auto

declare str_nat.simps [simp del]

definition str_int :: "int \<Rightarrow> string" where
  "str_int i = (if i < 0 then ''-'' @ str_nat (nat (- i)) else str_nat (nat i))"

subsection \<open>The symbols of the messages, as UTF-8\<close>

definition cross_mark :: string where
  "cross_mark = [CHR 0xE2, CHR 0x9D, CHR 0x8C]"

definition check_mark :: string where
  "check_mark = [CHR 0xE2, CHR 0x9C, CHR 0x85]"

definition warning_sign :: string where
  "warning_sign = [CHR 0xE2, CHR 0x9A, CHR 0xA0,
                   CHR 0xEF, CHR 0xB8, CHR 0x8F]"

definition package_sign :: string where
  "package_sign = [CHR 0xF0, CHR 0x9F, CHR 0x93, CHR 0xA6]"

definition arrows_sign :: string where
  "arrows_sign = [CHR 0xF0, CHR 0x9F, CHR 0x94, CHR 0x84]"

definition rocket_sign :: string where
  "rocket_sign = [CHR 0xF0, CHR 0x9F, CHR 0x9A, CHR 0x80]"

definition party_sign :: string where
  "party_sign = [CHR 0xF0, CHR 0x9F, CHR 0x8E, CHR 0x89]"

definition newline :: string where
  "newline = [CHR 0x0A]"

subsection \<open>The functions of the script\<close>

definition get_file_size_mb :: "platform \<Rightarrow> world \<Rightarrow> string \<Rightarrow> string" where
  "get_file_size_mb p w file_path =
     (if os_path_exists w file_path
      then (case os_path_getsize w file_path of
              Inr size_bytes \<Rightarrow> format_2f p size_bytes @ '' MB''
            | Inl e \<Rightarrow> ''Unknown'')
      else ''Unknown'')"

definition validate_model_file :: "platform \<Rightarrow> string \<Rightarrow> world \<Rightarrow> bool result" where
  "validate_model_file p model_path w =
     (if \<not> os_path_exists w model_path
      then Return False
             (print (cross_mark @ '' Error: Model file '' @ [CHR 0x27] @ model_path
                       @ [CHR 0x27] @ '' not found'') w)
      else (case os_path_getsize w model_path of
              Inl e \<Rightarrow> Raise e w
            | Inr n \<Rightarrow>
                if n = 0
                then Return False
                       (print (cross_mark @ '' Error: Model file '' @ [CHR 0x27] @ model_path
                                 @ [CHR 0x27] @ '' is empty'') w)
                else Return True
                       (print (check_mark @ '' Model file validated: '' @ model_path @ '' (''
                                 @ get_file_size_mb p w model_path @ '')'') w)))"

text \<open>The text of the metadata file, and the path it is written to.\<close>

definition metadata_content :: "platform \<Rightarrow> world \<Rightarrow> string \<Rightarrow> real \<Rightarrow> string" where
  "metadata_content p w model_path created =
     ''Model Information'' @ newline
     @ ''=================='' @ newline
     @ ''Model file: '' @ os_path_basename model_path @ newline
     @ ''File size: '' @ get_file_size_mb p w model_path @ newline
     @ ''Created: '' @ str_float p created @ newline
     @ ''Description: Fine-tuned disease classification model'' @ newline"

definition metadata_path_of :: "string \<Rightarrow> string" where
  "metadata_path_of model_path = fst (os_path_splitext model_path) @ ''_info.txt''"

definition create_model_metadata :: "platform \<Rightarrow> string \<Rightarrow> world \<Rightarrow> string option result" where
  "create_model_metadata p model_path w =
     (case os_path_getctime w model_path of
        Inl e \<Rightarrow> Raise e w
      | Inr created \<Rightarrow>
          (let content = metadata_content p w model_path created;
               metadata_path = metadata_path_of model_path;
               (err, fs) = write_file p metadata_path content (files w);
               w1 = w\<lparr>files := fs, trace := trace w @ [WriteFile metadata_path content]\<rparr>
           in case err of
                None \<Rightarrow>
                  Return (Some metadata_path)
                    (print (check_mark @ '' Model metadata created: '' @ metadata_path) w1)
              | Some e \<Rightarrow>
                  Return None
                    (print (warning_sign @ ''  Warning: Could not create metadata file: '' @ e) w1)))"

text \<open>The command line of lines 87 to 89: the metadata path is appended when
  \<open>create_model_metadata\<close> returned a (non-empty) path and that path exists.\<close>

definition zip_command :: "world \<Rightarrow> string \<Rightarrow> string \<Rightarrow> string option \<Rightarrow> string" where
  "zip_command w zip_name model_path metadata_path =
     (let cmd = ''zip -r '' @ zip_name @ '' '' @ model_path
      in case metadata_path of
           None \<Rightarrow> cmd
         | Some m \<Rightarrow> if m \<noteq> [] \<and> os_path_exists w m then cmd @ '' '' @ m else cmd)"

definition create_zip_archive :: "platform \<Rightarrow> string \<Rightarrow> string \<Rightarrow> world \<Rightarrow> bool result" where
  "create_zip_archive p model_path zip_name w =
     (case validate_model_file p model_path (print (package_sign @ '' Creating zip file...'') w) of
        Raise e w1 \<Rightarrow> Raise e w1
      | Return ok w1 \<Rightarrow>
          if \<not> ok then Return False w1
          else (case create_model_metadata p model_path w1 of
                  Raise e w2 \<Rightarrow> Raise e w2
                | Return metadata_path w2 \<Rightarrow>
                    (let cmd = zip_command w2 zip_name model_path metadata_path;
                         (exit_status, fs) = os_system p cmd (files w2);
                         w3 = w2\<lparr>files := fs, trace := trace w2 @ [System cmd exit_status]\<rparr>
                     in if exit_status \<noteq> 0
                        then Return False
                               (print (cross_mark @ '' Error: Failed to create zip file (exit code: ''
                                         @ str_int exit_status @ '')'') w3)
                        else Return True w3)))"

definition download_model_zip :: "platform \<Rightarrow> string \<Rightarrow> world \<Rightarrow> bool result" where
  "download_model_zip p zip_path w =
     (if \<not> os_path_exists w zip_path
      then Return False
             (print (cross_mark @ '' Error: Zip file '' @ [CHR 0x27] @ zip_path
                       @ [CHR 0x27] @ '' was not created'') w)
      else
        (let file_size = get_file_size_mb p w zip_path;
             w1 = print (check_mark @ '' Model zipped successfully as '' @ zip_path @ '' (''
                           @ file_size @ '')'') w
         in if IN_COLAB p
            then (let w2 = print (arrows_sign @ '' Starting download...'') w1;
                      w3 = w2\<lparr>trace := trace w2 @ [Download zip_path]\<rparr>
                  in case files_download p zip_path (files w3) of
                       None \<Rightarrow> Return True (print (check_mark @ '' Download initiated!'') w3)
                     | Some e \<Rightarrow>
                         Return False (print (cross_mark @ '' Error during download: '' @ e) w3))
            else Return True
                   (print (check_mark @ '' Download simulation complete!'')
                     (print (''   File '' @ [CHR 0x27] @ zip_path @ [CHR 0x27]
                               @ '' would be downloaded in Google Colab'')
                       (print (arrows_sign @ '' Simulating download (not in Colab environment)...'')
                          w1)))))"

definition main :: "platform \<Rightarrow> world \<Rightarrow> unit result" where
  "main p w =
     (let model_path = ''fin_disease.pth'';
          zip_name = ''fin_disease.zip'';
          w1 = print (replicate 50 CHR ''='')
                 (print (rocket_sign @ '' Starting model download process...'') w)
      in case create_zip_archive p model_path zip_name w1 of
           Raise e w2 \<Rightarrow> Raise e w2
         | Return archived w2 \<Rightarrow>
             if \<not> archived
             then Raise (SystemExit 1)
                    (print (cross_mark @ '' Failed to create zip archive. Aborting.'') w2)
             else (case download_model_zip p zip_name w2 of
                     Raise e w3 \<Rightarrow> Raise e w3
                   | Return downloaded w3 \<Rightarrow>
                       if \<not> downloaded
                       then Raise (SystemExit 1)
                              (print (cross_mark @ '' Failed to download zip file. Aborting.'') w3)
                       else Return ()
                              (print (party_sign @ '' Model download process completed successfully!'')
                                 (print (replicate 50 CHR ''='') w3))))"

text \<open>The whole script: the import of \<open>google.colab\<close> at module level, which prints a note
  when it fails, then \<open>main\<close>.\<close>

definition module_init :: "platform \<Rightarrow> world \<Rightarrow> world" where
  "module_init p w =
     (if IN_COLAB p then w
      else print ''   files.download() functionality will be simulated''
             (print (warning_sign @ ''  Note: Not running in Google Colab environment'') w))"

definition script :: "platform \<Rightarrow> world \<Rightarrow> unit result" where
  "script p w = main p (module_init p w)"

subsection \<open>Reading a trace\<close>

fun is_write :: "event \<Rightarrow> bool" where
  "is_write (WriteFile _ _) = True"
| "is_write _ = False"

fun is_system :: "event \<Rightarrow> bool" where
  "is_system (System _ _) = True"
| "is_system _ = False"

fun is_download :: "event \<Rightarrow> bool" where
  "is_download (Download _) = True"
| "is_download _ = False"

text \<open>The first line the transfer step prints when it only simulates the transfer.\<close>

definition simulation_message :: string where
  "simulation_message = arrows_sign @ '' Simulating download (not in Colab environment)...''"

text \<open>
  The order of the stages, read off a trace. A write of the metadata file and a shell
  command may only come after the line that reports the model file as validated; a transfer,
  real or simulated, only after a shell command that returned status 0.
\<close>

definition validated_prefix :: string where
  "validated_prefix = check_mark @ '' Model file validated: ''"

fun stages_in_order :: "bool \<Rightarrow> bool \<Rightarrow> event list \<Rightarrow> bool" where
  "stages_in_order validated archived [] = True"
| "stages_in_order validated archived (Print s # es) =
     ((s = simulation_message \<longrightarrow> archived)
      \<and> stages_in_order (validated \<or> prefix validated_prefix s) archived es)"
| "stages_in_order validated archived (WriteFile path content # es) =
     (validated \<and> stages_in_order validated archived es)"
| "stages_in_order validated archived (System cmd status # es) =
     (validated \<and> stages_in_order validated (archived \<or> status = 0) es)"
| "stages_in_order validated archived (Download path # es) =
     (archived \<and> stages_in_order validated archived es)"

subsection \<open>A concrete platform and concrete worlds\<close>

text \<open>
  One platform to run the script on. \<open>fmt_2f_exact\<close> rounds the byte count over \<open>2^20\<close> to two
  decimals, half to even, which is what Python prints for every size below \<open>2^53\<close> bytes.
  The shell command succeeds or fails as \<open>zip_status\<close> says, and leaves the archive behind
  when it succeeds; the write of the metadata file fails with \<open>write_error\<close> when that is
  given.
\<close>

definition fmt_2f_exact :: "nat \<Rightarrow> string" where
  "fmt_2f_exact n =
     (let q = (n * 100) div 1048576;
          r = (n * 100) mod 1048576;
          h = (if r > 524288 \<or> (r = 524288 \<and> odd q) then q + 1 else q)
      in str_nat (h div 100) @ ''.'' @ [char_of (48 + (h mod 100) div 10), char_of (48 + h mod 10)])"

definition demo_platform :: "bool \<Rightarrow> string option \<Rightarrow> int \<Rightarrow> platform" where
  "demo_platform colab write_error zip_status =
     \<lparr>IN_COLAB = colab,
      os_system = (\<lambda>cmd fs.
        if zip_status = 0
        then (0, fs(takeWhile (\<lambda>c. c \<noteq> CHR '' '') (drop 7 cmd) \<mapsto> \<lparr>st_size = 1000, st_ctime = 1700000000\<rparr>))
        else (zip_status, fs)),
      write_file = (\<lambda>path content fs.
        case write_error of
          None \<Rightarrow> (None, fs(path \<mapsto> \<lparr>st_size = length content, st_ctime = 1700000000\<rparr>))
        | Some e \<Rightarrow> (Some e, fs)),
      files_download = (\<lambda>path fs. None),
      format_2f = fmt_2f_exact,
      str_float = (\<lambda>t. str_int \<lfloor>t\<rfloor> @ ''.0'')\<rparr>"

definition world_with_file :: "string \<Rightarrow> nat \<Rightarrow> world" where
  "world_with_file path n = \<lparr>files = [path \<mapsto> \<lparr>st_size = n, st_ctime = 1700000000\<rparr>], trace = []\<rparr>"

definition empty_world :: world where
  "empty_world = \<lparr>files = Map.empty, trace = []\<rparr>"

text \<open>The metadata text for the model file \<open>models/fin_disease.pth\<close> of 2621440 bytes
  (2.5 MB) on that platform.\<close>

definition demo_metadata_text :: string where
  "demo_metadata_text =
     ''Model Information'' @ newline
     @ ''=================='' @ newline
     @ ''Model file: fin_disease.pth'' @ newline
     @ ''File size: 2.50 MB'' @ newline
     @ ''Created: 1700000000.0'' @ newline
     @ ''Description: Fine-tuned disease classification model'' @ newline"

section \<open>Properties\<close>

subsection \<open>Basic facts\<close>

lemma trace_print [simp]: "trace (print s w) = trace w @ [Print s]"
  by (simp add: print_def)

lemma files_print [simp]: "files (print s w) = files w"
  by (simp add: print_def)

lemma os_path_exists_print [simp]: "os_path_exists (print s w) path = os_path_exists w path"
  by (simp add: os_path_exists_def)

lemma os_path_getsize_print [simp]: "os_path_getsize (print s w) path = os_path_getsize w path"
  by (simp add: os_path_getsize_def)

lemma os_path_getctime_print [simp]: "os_path_getctime (print s w) path = os_path_getctime w path"
  by (simp add: os_path_getctime_def)

lemma get_file_size_mb_print [simp]:
  "get_file_size_mb p (print s w) path = get_file_size_mb p w path"
  by (simp add: get_file_size_mb_def)

lemma new_events_append: "trace w' = trace w @ es \<Longrightarrow> new_events w w' = es"
  by (simp add: new_events_def)

text \<open>
  C8. For a path that does not exist, \<open>get_file_size_mb\<close> returns the string "Unknown": it
  does not raise (the function returns a plain string in every case) and does not return a
  size.
\<close>

theorem get_file_size_mb_missing:
  assumes "files w file_path = None"
  shows "get_file_size_mb p w file_path = ''Unknown''"
  using assms by (simp add: get_file_size_mb_def os_path_exists_def)

theorem get_file_size_mb_missing_witness:
  "files empty_world ''fin_disease.zip'' = None
   \<and> get_file_size_mb (demo_platform False None 0) empty_world ''fin_disease.zip'' = ''Unknown''"
proof -
  have h: "files empty_world ''fin_disease.zip'' = None"
    by (simp add: empty_world_def)
  from h get_file_size_mb_missing [OF h] show ?thesis by (intro conjI)
qed

text \<open>
  C9. For an archive path that does not exist, \<open>download_model_zip\<close> prints one line, an
  error naming the archive, and returns false. It does not call the file-transfer function
  and does not print the simulated-transfer message, whatever \<open>IN_COLAB\<close> is.
\<close>

theorem download_model_zip_missing_archive:
  assumes "files w zip_path = None"
  shows "download_model_zip p zip_path w
           = Return False (print (cross_mark @ '' Error: Zip file '' @ [CHR 0x27] @ zip_path
                                    @ [CHR 0x27] @ '' was not created'') w)
         \<and> sublist zip_path (cross_mark @ '' Error: Zip file '' @ [CHR 0x27] @ zip_path
                                    @ [CHR 0x27] @ '' was not created'')
         \<and> new_events w (world_of (download_model_zip p zip_path w))
             = [Print (cross_mark @ '' Error: Zip file '' @ [CHR 0x27] @ zip_path
                                    @ [CHR 0x27] @ '' was not created'')]
         \<and> list_all (\<lambda>e. \<not> is_download e \<and> e \<noteq> Print simulation_message)
              (new_events w (world_of (download_model_zip p zip_path w)))"
proof -
  let ?msg = "cross_mark @ '' Error: Zip file '' @ [CHR 0x27] @ zip_path
                @ [CHR 0x27] @ '' was not created''"
  have run: "download_model_zip p zip_path w = Return False (print ?msg w)"
    using assms by (simp add: download_model_zip_def os_path_exists_def)
  have ev: "new_events w (world_of (download_model_zip p zip_path w)) = [Print ?msg]"
    by (rule new_events_append) (simp add: run)
  have sub: "sublist zip_path ?msg"
    by (metis append.assoc sublist_appendI)
  have differ: "?msg \<noteq> simulation_message"
    by (simp add: cross_mark_def simulation_message_def arrows_sign_def)
  show ?thesis
    using run ev sub differ by simp
qed

theorem download_model_zip_missing_archive_witness:
  "files empty_world ''fin_disease.zip'' = None
   \<and> value_of (download_model_zip (demo_platform True None 0) ''fin_disease.zip'' empty_world) = Some False
   \<and> value_of (download_model_zip (demo_platform False None 0) ''fin_disease.zip'' empty_world) = Some False"
proof -
  have h: "files empty_world ''fin_disease.zip'' = None"
    by (simp add: empty_world_def)
  show ?thesis
    using h download_model_zip_missing_archive [OF h, of "demo_platform True None 0"]
      download_model_zip_missing_archive [OF h, of "demo_platform False None 0"]
    by simp
qed

lemma validate_model_file_missing:
  assumes "files w model_path = None"
  shows "validate_model_file p model_path w
           = Return False (print (cross_mark @ '' Error: Model file '' @ [CHR 0x27] @ model_path
                                    @ [CHR 0x27] @ '' not found'') w)"
  using assms by (simp add: validate_model_file_def os_path_exists_def)

lemma validate_model_file_empty:
  assumes "files w model_path = Some f" and "st_size f = 0"
  shows "validate_model_file p model_path w
           = Return False (print (cross_mark @ '' Error: Model file '' @ [CHR 0x27] @ model_path
                                    @ [CHR 0x27] @ '' is empty'') w)"
  using assms by (simp add: validate_model_file_def os_path_exists_def os_path_getsize_def)

lemma validate_model_file_ok:
  assumes "files w model_path = Some f" and "st_size f \<noteq> 0"
  shows "validate_model_file p model_path w
           = Return True (print (check_mark @ '' Model file validated: '' @ model_path @ '' (''
                                   @ get_file_size_mb p w model_path @ '')'') w)"
  using assms by (simp add: validate_model_file_def os_path_exists_def os_path_getsize_def)

text \<open>
  C1. When the model file \<open>fin_disease.pth\<close> does not exist, the script (and \<open>main\<close> alone)
  exits with status 1, and among the lines it printed is the error naming the missing file.
\<close>

theorem script_missing_model_file:
  assumes "files w ''fin_disease.pth'' = None"
  shows "exit_code (script p w) = 1
         \<and> exit_code (script p w) \<noteq> 0
         \<and> exit_code (main p w) = 1
         \<and> Print (cross_mark @ '' Error: Model file '' @ [CHR 0x27] @ ''fin_disease.pth''
                     @ [CHR 0x27] @ '' not found'')
               \<in> set (new_events w (world_of (script p w)))
         \<and> sublist ''fin_disease.pth''
              (cross_mark @ '' Error: Model file '' @ [CHR 0x27] @ ''fin_disease.pth''
                 @ [CHR 0x27] @ '' not found'')"
proof -
  let ?msg = "cross_mark @ '' Error: Model file '' @ [CHR 0x27] @ ''fin_disease.pth''
                @ [CHR 0x27] @ '' not found''"
  have archive: "create_zip_archive p ''fin_disease.pth'' z w'
                   = Return False (print ?msg (print (package_sign @ '' Creating zip file...'') w'))"
    if "files w' = files w" for w' z
    using that assms
    by (simp add: create_zip_archive_def validate_model_file_missing)
  have m: "main p w' = Raise (SystemExit 1)
             (print (cross_mark @ '' Failed to create zip archive. Aborting.'')
               (print ?msg (print (package_sign @ '' Creating zip file...'')
                 (print (replicate 50 CHR ''='')
                   (print (rocket_sign @ '' Starting model download process...'') w')))))"
    if "files w' = files w" for w'
    using that by (simp add: main_def archive)
  have sub: "sublist ''fin_disease.pth'' ?msg"
    by (metis append.assoc sublist_appendI)
  have ev: "Print ?msg \<in> set (new_events w (world_of (script p w)))"
    by (simp add: script_def module_init_def m new_events_def)
  have "exit_code (script p w) = 1"
    by (simp add: script_def module_init_def m)
  moreover have "exit_code (main p w) = 1"
    by (simp add: m)
  ultimately show ?thesis
    using ev sub by simp
qed

theorem script_missing_model_file_witness:
  "files empty_world ''fin_disease.pth'' = None
   \<and> exit_code (script (demo_platform False None 0) empty_world) = 1"
proof -
  have h: "files empty_world ''fin_disease.pth'' = None"
    by (simp add: empty_world_def)
  show ?thesis
    using h script_missing_model_file [OF h, of "demo_platform False None 0"] by simp
qed

text \<open>
  C2. For a model file that exists with size zero, \<open>validate_model_file\<close> returns false, and
  \<open>create_zip_archive\<close> returns false without running any shell command and leaves the
  filesystem as it was: no archive is produced.
\<close>

theorem zero_byte_model_file:
  assumes "files w model_path = Some f" and "st_size f = 0"
  shows "value_of (validate_model_file p model_path w) = Some False
         \<and> value_of (create_zip_archive p model_path zip_name w) = Some False
         \<and> list_all (\<lambda>e. \<not> is_system e)
              (new_events w (world_of (create_zip_archive p model_path zip_name w)))
         \<and> files (world_of (create_zip_archive p model_path zip_name w)) = files w"
proof -
  have v: "value_of (validate_model_file p model_path w) = Some False"
    using assms by (simp add: validate_model_file_empty)
  have "files (print (package_sign @ '' Creating zip file...'') w) model_path = Some f"
    using assms by simp
  then have a: "create_zip_archive p model_path zip_name w
          = Return False
              (print (cross_mark @ '' Error: Model file '' @ [CHR 0x27] @ model_path
                        @ [CHR 0x27] @ '' is empty'')
                 (print (package_sign @ '' Creating zip file...'') w))"
    using assms(2) by (simp add: create_zip_archive_def validate_model_file_empty)
  show ?thesis
    using v by (simp add: a new_events_def)
qed

theorem zero_byte_model_file_witness:
  "files (world_with_file ''fin_disease.pth'' 0) ''fin_disease.pth''
     = Some \<lparr>st_size = 0, st_ctime = 1700000000\<rparr>
   \<and> st_size \<lparr>st_size = 0, st_ctime = 1700000000\<rparr> = 0
   \<and> value_of (create_zip_archive (demo_platform False None 0) ''fin_disease.pth''
        ''fin_disease.zip'' (world_with_file ''fin_disease.pth'' 0)) = Some False
   \<and> files (world_of (create_zip_archive (demo_platform False None 0) ''fin_disease.pth''
        ''fin_disease.zip'' (world_with_file ''fin_disease.pth'' 0))) ''fin_disease.zip'' = None"
proof -
  have h1: "files (world_with_file ''fin_disease.pth'' 0) ''fin_disease.pth''
              = Some \<lparr>st_size = 0, st_ctime = 1700000000\<rparr>"
    by (simp add: world_with_file_def)
  have h2: "st_size \<lparr>st_size = 0, st_ctime = 1700000000\<rparr> = 0"
    by simp
  have h3: "files (world_with_file ''fin_disease.pth'' 0) ''fin_disease.zip'' = None"
    by (simp add: world_with_file_def)
  show ?thesis
    using h1 h3 zero_byte_model_file [OF h1 h2, of "demo_platform False None 0" "''fin_disease.zip''"]
    by simp
qed

text \<open>
  C3, as amended. Outside Colab, for an archive path that exists, \<open>download_model_zip\<close>
  returns true; the lines it prints are the report of the archive, the simulated-transfer
  message and the two lines after it, and it does not call the file-transfer function.
\<close>

theorem download_model_zip_outside_colab:
  assumes "\<not> IN_COLAB p" and "os_path_exists w zip_path"
  shows "download_model_zip p zip_path w
           = Return True
               (print (check_mark @ '' Download simulation complete!'')
                  (print (''   File '' @ [CHR 0x27] @ zip_path @ [CHR 0x27]
                            @ '' would be downloaded in Google Colab'')
                     (print simulation_message
                        (print (check_mark @ '' Model zipped successfully as '' @ zip_path
                                  @ '' ('' @ get_file_size_mb p w zip_path @ '')'') w))))
         \<and> value_of (download_model_zip p zip_path w) = Some True
         \<and> new_events w (world_of (download_model_zip p zip_path w))
             = [Print (check_mark @ '' Model zipped successfully as '' @ zip_path
                         @ '' ('' @ get_file_size_mb p w zip_path @ '')''),
                Print simulation_message,
                Print (''   File '' @ [CHR 0x27] @ zip_path @ [CHR 0x27]
                         @ '' would be downloaded in Google Colab''),
                Print (check_mark @ '' Download simulation complete!'')]
         \<and> Print simulation_message
             \<in> set (new_events w (world_of (download_model_zip p zip_path w)))
         \<and> list_all (\<lambda>e. \<not> is_download e)
              (new_events w (world_of (download_model_zip p zip_path w)))"
  using assms
  by (simp add: download_model_zip_def Let_def new_events_def simulation_message_def)

theorem download_model_zip_outside_colab_witness:
  "\<not> IN_COLAB (demo_platform False None 0)
   \<and> os_path_exists (world_with_file ''fin_disease.zip'' 1000) ''fin_disease.zip''
   \<and> value_of (download_model_zip (demo_platform False None 0) ''fin_disease.zip''
                 (world_with_file ''fin_disease.zip'' 1000)) = Some True
   \<and> Print simulation_message
       \<in> set (new_events (world_with_file ''fin_disease.zip'' 1000)
                 (world_of (download_model_zip (demo_platform False None 0) ''fin_disease.zip''
                              (world_with_file ''fin_disease.zip'' 1000))))"
proof -
  have h: "\<not> IN_COLAB (demo_platform False None 0)"
    by (simp add: demo_platform_def)
  have e: "os_path_exists (world_with_file ''fin_disease.zip'' 1000) ''fin_disease.zip''"
    by (simp add: os_path_exists_def world_with_file_def)
  note inst = download_model_zip_outside_colab [OF h e]
  from inst have v: "value_of (download_model_zip (demo_platform False None 0) ''fin_disease.zip''
                 (world_with_file ''fin_disease.zip'' 1000)) = Some True"
    by (elim conjE)
  from inst have m: "Print simulation_message
       \<in> set (new_events (world_with_file ''fin_disease.zip'' 1000)
                 (world_of (download_model_zip (demo_platform False None 0) ''fin_disease.zip''
                              (world_with_file ''fin_disease.zip'' 1000))))"
    by (elim conjE)
  show ?thesis
    using h e v m by (intro conjI)
qed

text \<open>
  C3 as stated fails for an archive that does not exist: outside Colab the call returns
  false and prints no simulated-transfer message.
\<close>

theorem download_model_zip_outside_colab_counterexample:
  "\<not> IN_COLAB (demo_platform False None 0)
   \<and> value_of (download_model_zip (demo_platform False None 0) ''fin_disease.zip'' empty_world)
       = Some False
   \<and> Print simulation_message
       \<notin> set (trace (world_of (download_model_zip (demo_platform False None 0)
                                  ''fin_disease.zip'' empty_world)))"
  by (simp add: download_model_zip_def os_path_exists_def empty_world_def demo_platform_def
        print_def simulation_message_def cross_mark_def arrows_sign_def)

text \<open>What \<open>create_model_metadata\<close> does for a model file that exists.\<close>

lemma create_model_metadata_exists:
  assumes "files w model_path = Some f"
    and "write_file p (metadata_path_of model_path)
           (metadata_content p w model_path (st_ctime f)) (files w) = (err, fs)"
  shows "create_model_metadata p model_path w
           = (let w1 = w\<lparr>files := fs,
                         trace := trace w @ [WriteFile (metadata_path_of model_path)
                                    (metadata_content p w model_path (st_ctime f))]\<rparr>
              in case err of
                   None \<Rightarrow> Return (Some (metadata_path_of model_path))
                             (print (check_mark @ '' Model metadata created: ''
                                       @ metadata_path_of model_path) w1)
                 | Some e \<Rightarrow> Return None
                             (print (warning_sign @ ''  Warning: Could not create metadata file: ''
                                       @ e) w1))"
  using assms by (simp add: create_model_metadata_def os_path_getctime_def Let_def)

lemma get_file_size_mb_exists:
  assumes "files w file_path = Some f"
  shows "get_file_size_mb p w file_path = format_2f p (st_size f) @ '' MB''"
  using assms by (simp add: get_file_size_mb_def os_path_exists_def os_path_getsize_def)

text \<open>\<open>os_path_basename\<close> is the end of the path after its last slash.\<close>

lemma os_path_basename_split:
  "(\<exists>dir. p = dir @ os_path_basename p \<and> (dir = [] \<or> last dir = CHR ''/''))
   \<and> CHR ''/'' \<notin> set (os_path_basename p)"
proof (intro conjI exI [of _ "rev (dropWhile (\<lambda>c. c \<noteq> CHR ''/'') (rev p))"])
  let ?P = "\<lambda>c. c \<noteq> CHR ''/''"
  have "rev (dropWhile ?P (rev p)) @ rev (takeWhile ?P (rev p))
          = rev (takeWhile ?P (rev p) @ dropWhile ?P (rev p))"
    by (simp only: rev_append)
  also have "\<dots> = p"
    by (simp only: takeWhile_dropWhile_id rev_rev_ident)
  finally show "p = rev (dropWhile ?P (rev p)) @ os_path_basename p"
    by (simp only: os_path_basename_def)
  show "rev (dropWhile ?P (rev p)) = [] \<or> last (rev (dropWhile ?P (rev p))) = CHR ''/''"
  proof (cases "dropWhile ?P (rev p) = []")
    case True
    then show ?thesis by simp
  next
    case False
    then have "\<not> ?P (hd (dropWhile ?P (rev p)))"
      by (rule hd_dropWhile)
    with False show ?thesis
      by (simp add: last_rev)
  qed
  show "CHR ''/'' \<notin> set (os_path_basename p)"
    by (auto simp add: os_path_basename_def dest: set_takeWhileD)
qed

text \<open>The metadata text of the 2.5 MB model file, computed.\<close>

lemma demo_format_size: "fmt_2f_exact 2621440 = ''2.50''"
  by (simp add: fmt_2f_exact_def str_nat.simps char_of_def bit_0)

lemma demo_format_ctime: "str_int 1700000000 = ''1700000000''"
  by (simp add: str_int_def str_nat.simps char_of_def bit_0)

lemma demo_file_size_mb:
  "get_file_size_mb (demo_platform False None 0)
     (world_with_file ''models/fin_disease.pth'' 2621440) ''models/fin_disease.pth''
     = ''2.50 MB''"
  by (simp add: get_file_size_mb_def os_path_exists_def os_path_getsize_def world_with_file_def
        demo_platform_def demo_format_size)

lemma demo_metadata_content:
  "metadata_content (demo_platform False None 0)
     (world_with_file ''models/fin_disease.pth'' 2621440) ''models/fin_disease.pth''
     (st_ctime \<lparr>st_size = 2621440, st_ctime = 1700000000\<rparr>)
     = demo_metadata_text"
  unfolding metadata_content_def demo_file_size_mb
  by (simp add: demo_metadata_text_def os_path_basename_def demo_platform_def demo_format_ctime)

text \<open>
  C4. For a model file that exists, \<open>create_model_metadata\<close> returns, and the one text it
  hands to the write contains the basename of the model path, on the line "Model file:",
  and the size string, on the line "File size:". The basename is the end of the path after
  its last slash; the size string is the formatted size of the file followed by " MB".
\<close>

theorem metadata_content_embeds:
  assumes "files w model_path = Some f"
  shows "(\<exists>r w'. create_model_metadata p model_path w = Return r w')
         \<and> WriteFile (metadata_path_of model_path) (metadata_content p w model_path (st_ctime f))
             \<in> set (new_events w (world_of (create_model_metadata p model_path w)))
         \<and> length (filter is_write (new_events w (world_of (create_model_metadata p model_path w)))) = 1
         \<and> sublist (os_path_basename model_path) (metadata_content p w model_path (st_ctime f))
         \<and> sublist (''Model file: '' @ os_path_basename model_path @ newline)
              (metadata_content p w model_path (st_ctime f))
         \<and> sublist (get_file_size_mb p w model_path) (metadata_content p w model_path (st_ctime f))
         \<and> suffix '' MB'' (get_file_size_mb p w model_path)
         \<and> get_file_size_mb p w model_path = format_2f p (st_size f) @ '' MB''
         \<and> sublist (''File size: '' @ format_2f p (st_size f) @ '' MB'' @ newline)
              (metadata_content p w model_path (st_ctime f))
         \<and> (\<exists>dir. model_path = dir @ os_path_basename model_path
                    \<and> (dir = [] \<or> last dir = CHR ''/''))
         \<and> CHR ''/'' \<notin> set (os_path_basename model_path)"
proof -
  let ?content = "metadata_content p w model_path (st_ctime f)"
  obtain err fs where wr: "write_file p (metadata_path_of model_path) ?content (files w) = (err, fs)"
    by (cases "write_file p (metadata_path_of model_path) ?content (files w)")
  note run = create_model_metadata_exists [OF assms wr]
  have ret: "\<exists>r w'. create_model_metadata p model_path w = Return r w'"
    by (cases err) (simp_all add: run)
  have ev: "new_events w (world_of (create_model_metadata p model_path w))
              = [WriteFile (metadata_path_of model_path) ?content,
                 Print (case err of
                          None \<Rightarrow> check_mark @ '' Model metadata created: ''
                                    @ metadata_path_of model_path
                        | Some e \<Rightarrow> warning_sign @ ''  Warning: Could not create metadata file: ''
                                    @ e)]"
    by (cases err) (simp_all add: run new_events_def)
  have line: "sublist (''Model file: '' @ os_path_basename model_path @ newline) ?content"
    unfolding metadata_content_def by (metis append.assoc sublist_appendI)
  have base: "sublist (os_path_basename model_path) ?content"
    unfolding metadata_content_def by (metis append.assoc sublist_appendI)
  have sz: "sublist (get_file_size_mb p w model_path) ?content"
    unfolding metadata_content_def by (metis append.assoc sublist_appendI)
  note size_eq = get_file_size_mb_exists [OF assms, of p]
  have mb: "suffix '' MB'' (get_file_size_mb p w model_path)"
    unfolding size_eq by (rule suffixI) simp
  have "sublist (''File size: '' @ get_file_size_mb p w model_path @ newline) ?content"
    unfolding metadata_content_def by (metis append.assoc sublist_appendI)
  then have szline: "sublist (''File size: '' @ format_2f p (st_size f) @ '' MB'' @ newline)
                       ?content"
    unfolding size_eq by (simp only: append.assoc)
  note bn = os_path_basename_split [of model_path]
  have "length (filter is_write (new_events w (world_of (create_model_metadata p model_path w)))) = 1"
    and "WriteFile (metadata_path_of model_path) ?content
           \<in> set (new_events w (world_of (create_model_metadata p model_path w)))"
    by (simp_all add: ev)
  with ret line base sz mb size_eq szline bn show ?thesis
    by (intro conjI) (elim conjE, assumption)+
qed

theorem metadata_content_embeds_witness:
  "files (world_with_file ''models/fin_disease.pth'' 2621440) ''models/fin_disease.pth''
     = Some \<lparr>st_size = 2621440, st_ctime = 1700000000\<rparr>
   \<and> metadata_content (demo_platform False None 0)
        (world_with_file ''models/fin_disease.pth'' 2621440) ''models/fin_disease.pth''
        (st_ctime \<lparr>st_size = 2621440, st_ctime = 1700000000\<rparr>)
       = demo_metadata_text
   \<and> os_path_basename ''models/fin_disease.pth'' = ''fin_disease.pth''
   \<and> get_file_size_mb (demo_platform False None 0)
        (world_with_file ''models/fin_disease.pth'' 2621440) ''models/fin_disease.pth''
       = ''2.50 MB''
   \<and> sublist (os_path_basename ''models/fin_disease.pth'')
        (metadata_content (demo_platform False None 0)
           (world_with_file ''models/fin_disease.pth'' 2621440) ''models/fin_disease.pth''
           (st_ctime \<lparr>st_size = 2621440, st_ctime = 1700000000\<rparr>))
   \<and> sublist (get_file_size_mb (demo_platform False None 0)
        (world_with_file ''models/fin_disease.pth'' 2621440) ''models/fin_disease.pth'')
        (metadata_content (demo_platform False None 0)
           (world_with_file ''models/fin_disease.pth'' 2621440) ''models/fin_disease.pth''
           (st_ctime \<lparr>st_size = 2621440, st_ctime = 1700000000\<rparr>))
   \<and> suffix '' MB'' (get_file_size_mb (demo_platform False None 0)
        (world_with_file ''models/fin_disease.pth'' 2621440) ''models/fin_disease.pth'')"
proof -
  have h: "files (world_with_file ''models/fin_disease.pth'' 2621440) ''models/fin_disease.pth''
             = Some \<lparr>st_size = 2621440, st_ctime = 1700000000\<rparr>"
    by (simp add: world_with_file_def)
  have b: "os_path_basename ''models/fin_disease.pth'' = ''fin_disease.pth''"
    by (simp add: os_path_basename_def)
  note inst = metadata_content_embeds [OF h, of "demo_platform False None 0"]
  from inst
  have s1: "sublist (os_path_basename ''models/fin_disease.pth'')
        (metadata_content (demo_platform False None 0)
           (world_with_file ''models/fin_disease.pth'' 2621440) ''models/fin_disease.pth''
           (st_ctime \<lparr>st_size = 2621440, st_ctime = 1700000000\<rparr>))"
    by (elim conjE)
  from inst
  have s2: "sublist (get_file_size_mb (demo_platform False None 0)
        (world_with_file ''models/fin_disease.pth'' 2621440) ''models/fin_disease.pth'')
        (metadata_content (demo_platform False None 0)
           (world_with_file ''models/fin_disease.pth'' 2621440) ''models/fin_disease.pth''
           (st_ctime \<lparr>st_size = 2621440, st_ctime = 1700000000\<rparr>))"
    by (elim conjE)
  from inst
  have s3: "suffix '' MB'' (get_file_size_mb (demo_platform False None 0)
        (world_with_file ''models/fin_disease.pth'' 2621440) ''models/fin_disease.pth'')"
    by (elim conjE)
  show ?thesis
    using h demo_metadata_content b demo_file_size_mb s1 s2 s3 by (intro conjI)
qed

subsection \<open>The runs of the archiver and of the script\<close>

lemma metadata_content_print [simp]:
  "metadata_content p (print s w) m t = metadata_content p w m t"
  by (simp add: metadata_content_def)

lemma create_zip_archive_after_validation:
  assumes "validate_model_file p m (print (package_sign @ '' Creating zip file...'') w)
             = Return True wv"
    and "create_model_metadata p m wv = Return mp w2"
    and "os_system p (zip_command w2 z m mp) (files w2) = (status, fs)"
  shows "create_zip_archive p m z w
           = (if status \<noteq> 0
              then Return False
                     (print (cross_mark @ '' Error: Failed to create zip file (exit code: ''
                               @ str_int status @ '')'')
                        (w2\<lparr>files := fs,
                             trace := trace w2 @ [System (zip_command w2 z m mp) status]\<rparr>))
              else Return True
                     (w2\<lparr>files := fs,
                          trace := trace w2 @ [System (zip_command w2 z m mp) status]\<rparr>))"
  by (simp add: create_zip_archive_def assms)

lemma create_zip_archive_valid_run:
  assumes "files w m = Some f" and "st_size f \<noteq> 0"
  obtains err fs0 mp w2 msg status fs where
    "write_file p (metadata_path_of m) (metadata_content p w m (st_ctime f)) (files w) = (err, fs0)"
    and "mp = (case err of None \<Rightarrow> Some (metadata_path_of m) | Some e \<Rightarrow> None)"
    and "msg = (case err of
        None \<Rightarrow> check_mark @ '' Model metadata created: '' @ metadata_path_of m
      | Some e \<Rightarrow> warning_sign @ ''  Warning: Could not create metadata file: '' @ e)"
    and "create_model_metadata p m
       (print (check_mark @ '' Model file validated: '' @ m @ '' (''
                 @ get_file_size_mb p w m @ '')'')
          (print (package_sign @ '' Creating zip file...'') w)) = Return mp w2"
    and "mp = None \<or> mp = Some (metadata_path_of m)"
    and "trace w2 = trace w @
           [Print (package_sign @ '' Creating zip file...''),
            Print (check_mark @ '' Model file validated: '' @ m @ '' (''
                     @ get_file_size_mb p w m @ '')''),
            WriteFile (metadata_path_of m) (metadata_content p w m (st_ctime f)),
            Print msg]"
    and "msg \<noteq> simulation_message"
    and "os_system p (zip_command w2 z m mp) (files w2) = (status, fs)"
    and "create_zip_archive p m z w
           = (if status \<noteq> 0
              then Return False
                     (print (cross_mark @ '' Error: Failed to create zip file (exit code: ''
                               @ str_int status @ '')'')
                        (w2\<lparr>files := fs,
                             trace := trace w2 @ [System (zip_command w2 z m mp) status]\<rparr>))
              else Return True
                     (w2\<lparr>files := fs,
                          trace := trace w2 @ [System (zip_command w2 z m mp) status]\<rparr>))"
proof -
  let ?wv = "print (check_mark @ '' Model file validated: '' @ m @ '' (''
                      @ get_file_size_mb p w m @ '')'')
               (print (package_sign @ '' Creating zip file...'') w)"
  let ?content = "metadata_content p ?wv m (st_ctime f)"
  have fv: "files ?wv m = Some f"
    using assms(1) by simp
  obtain err fs0 where wr: "write_file p (metadata_path_of m) ?content (files ?wv) = (err, fs0)"
    by (cases "write_file p (metadata_path_of m) ?content (files ?wv)")
  note meta = create_model_metadata_exists [OF fv wr]
  define mp where "mp = (case err of None \<Rightarrow> Some (metadata_path_of m) | Some e \<Rightarrow> None)"
  define msg where "msg = (case err of
        None \<Rightarrow> check_mark @ '' Model metadata created: '' @ metadata_path_of m
      | Some e \<Rightarrow> warning_sign @ ''  Warning: Could not create metadata file: '' @ e)"
  define w2 where "w2 = print msg (?wv\<lparr>files := fs0,
                     trace := trace ?wv @ [WriteFile (metadata_path_of m) ?content]\<rparr>)"
  have cm: "create_model_metadata p m ?wv = Return mp w2"
    unfolding meta Let_def mp_def msg_def w2_def by (cases err) simp_all
  have mp: "mp = None \<or> mp = Some (metadata_path_of m)"
    by (cases err) (simp_all add: mp_def)
  have tr: "trace w2 = trace w @
           [Print (package_sign @ '' Creating zip file...''),
            Print (check_mark @ '' Model file validated: '' @ m @ '' (''
                     @ get_file_size_mb p w m @ '')''),
            WriteFile (metadata_path_of m) (metadata_content p w m (st_ctime f)),
            Print msg]"
    by (simp add: w2_def)
  have ms: "msg \<noteq> simulation_message"
    by (cases err)
       (simp_all add: msg_def simulation_message_def check_mark_def warning_sign_def arrows_sign_def)
  obtain status fs where sy: "os_system p (zip_command w2 z m mp) (files w2) = (status, fs)"
    by (cases "os_system p (zip_command w2 z m mp) (files w2)")
  have val: "validate_model_file p m (print (package_sign @ '' Creating zip file...'') w)
          = Return True ?wv"
    using assms by (simp add: validate_model_file_ok)
  have run: "create_zip_archive p m z w
           = (if status \<noteq> 0
              then Return False
                     (print (cross_mark @ '' Error: Failed to create zip file (exit code: ''
                               @ str_int status @ '')'')
                        (w2\<lparr>files := fs,
                             trace := trace w2 @ [System (zip_command w2 z m mp) status]\<rparr>))
              else Return True
                     (w2\<lparr>files := fs,
                          trace := trace w2 @ [System (zip_command w2 z m mp) status]\<rparr>))"
    by (rule create_zip_archive_after_validation [OF val cm sy])
  have wr': "write_file p (metadata_path_of m) (metadata_content p w m (st_ctime f)) (files w)
               = (err, fs0)"
    using wr by simp
  from wr' mp_def msg_def cm mp tr ms sy run show thesis
    by (rule that)
qed

lemma main_after_archive:
  assumes "create_zip_archive p ''fin_disease.pth'' ''fin_disease.zip''
             (print (replicate 50 CHR ''='')
                (print (rocket_sign @ '' Starting model download process...'') w)) = Return b wa"
  shows "main p w
           = (if \<not> b
              then Raise (SystemExit 1)
                     (print (cross_mark @ '' Failed to create zip archive. Aborting.'') wa)
              else (case download_model_zip p ''fin_disease.zip'' wa of
                      Raise e w3 \<Rightarrow> Raise e w3
                    | Return downloaded w3 \<Rightarrow>
                        if \<not> downloaded
                        then Raise (SystemExit 1)
                               (print (cross_mark @ '' Failed to download zip file. Aborting.'') w3)
                        else Return ()
                               (print (party_sign @ '' Model download process completed successfully!'')
                                  (print (replicate 50 CHR ''='') w3))))"
  using assms by (simp add: main_def)

text \<open>Once both stages have passed, every continuation is in order; a trace that writes,
  runs a command or transfers too early is not.\<close>

lemma stages_in_order_done [simp]: "stages_in_order True True es"
proof (induction es)
  case Nil
  show ?case by simp
next
  case (Cons e es)
  then show ?case by (cases e) simp_all
qed

lemma stages_in_order_rejects:
  "\<not> stages_in_order False False [WriteFile path content]"
  "\<not> stages_in_order False False [System cmd status]"
  "\<not> stages_in_order True False [System cmd 1, Download path]"
  "\<not> stages_in_order True False [System cmd 1, Print simulation_message]"
  by simp_all

text \<open>The transfer step returns, only adds to the trace, and adds no write and no command.\<close>

lemma download_model_zip_returns:
  "\<exists>b w'. download_model_zip p z w = Return b w'"
  by (auto simp add: download_model_zip_def Let_def split: option.split)

lemma download_model_zip_trace:
  "trace (world_of (download_model_zip p z w))
     = trace w @ new_events w (world_of (download_model_zip p z w))"
  by (simp add: download_model_zip_def Let_def new_events_def split: option.split)

lemma download_model_zip_events:
  "stages_in_order True True (new_events w (world_of (download_model_zip p z w)))
   \<and> list_all (\<lambda>e. \<not> is_write e \<and> \<not> is_system e)
        (new_events w (world_of (download_model_zip p z w)))"
  by (simp add: download_model_zip_def Let_def new_events_def split: option.split)

text \<open>The events of a whole run of \<open>main\<close>, by the outcome of the archive step.\<close>

lemma main_events:
  assumes "create_zip_archive p ''fin_disease.pth'' ''fin_disease.zip''
             (print (replicate 50 CHR ''='')
                (print (rocket_sign @ '' Starting model download process...'') w)) = Return b wa"
    and "trace wa = trace w @ es"
  shows "trace (world_of (main p w))
           = trace w @ es @ (if \<not> b then [Print (cross_mark @ '' Failed to create zip archive. Aborting.'')]
                   else new_events wa (world_of (download_model_zip p ''fin_disease.zip'' wa))
                        @ (if value_of (download_model_zip p ''fin_disease.zip'' wa) = Some True
                           then [Print (replicate 50 CHR ''=''),
                                 Print (party_sign @ '' Model download process completed successfully!'')]
                           else [Print (cross_mark @ '' Failed to download zip file. Aborting.'')]))"
    and "exit_code (main p w)
           = (if b \<and> value_of (download_model_zip p ''fin_disease.zip'' wa) = Some True
              then 0 else 1)"
proof -
  obtain d w3 where dl: "download_model_zip p ''fin_disease.zip'' wa = Return d w3"
    using download_model_zip_returns by blast
  define ds where "ds = new_events wa w3"
  have tr: "trace w3 = trace w @ es @ ds"
    using download_model_zip_trace [of p "''fin_disease.zip''" wa] assms(2)
    by (simp add: dl ds_def)
  have m: "main p w
           = (if \<not> b
              then Raise (SystemExit 1)
                     (print (cross_mark @ '' Failed to create zip archive. Aborting.'') wa)
              else if \<not> d
                   then Raise (SystemExit 1)
                          (print (cross_mark @ '' Failed to download zip file. Aborting.'') w3)
                   else Return ()
                          (print (party_sign @ '' Model download process completed successfully!'')
                             (print (replicate 50 CHR ''='') w3)))"
    unfolding main_after_archive [OF assms(1)] dl by simp
  show "trace (world_of (main p w))
           = trace w @ es @ (if \<not> b then [Print (cross_mark @ '' Failed to create zip archive. Aborting.'')]
                   else new_events wa (world_of (download_model_zip p ''fin_disease.zip'' wa))
                        @ (if value_of (download_model_zip p ''fin_disease.zip'' wa) = Some True
                           then [Print (replicate 50 CHR ''=''),
                                 Print (party_sign @ '' Model download process completed successfully!'')]
                           else [Print (cross_mark @ '' Failed to download zip file. Aborting.'')]))"
    unfolding m dl world_of.simps value_of.simps ds_def [symmetric]
    by (simp add: assms(2) tr)
  show "exit_code (main p w)
           = (if b \<and> value_of (download_model_zip p ''fin_disease.zip'' wa) = Some True
              then 0 else 1)"
    unfolding m dl by simp
qed

lemma files_module_init [simp]: "files (module_init p w) = files w"
  by (simp add: module_init_def)

lemma validate_model_file_True_iff:
  "value_of (validate_model_file p m w) = Some True
     \<longleftrightarrow> (\<exists>f. files w m = Some f \<and> st_size f \<noteq> 0)"
  by (cases "files w m")
     (auto simp add: validate_model_file_def os_path_exists_def os_path_getsize_def)

text \<open>The three ways a run of \<open>create_zip_archive\<close> can go.\<close>

lemma create_zip_archive_cases [case_names invalid zip_failed archived]:
  obtains
    (invalid) errmsg where
      "value_of (validate_model_file p m w) \<noteq> Some True"
      "create_zip_archive p m z w
         = Return False (print errmsg (print (package_sign @ '' Creating zip file...'') w))"
      "prefix cross_mark errmsg"
  | (zip_failed) f err fs0 mp w2 msg status wa where
      "files w m = Some f" "st_size f \<noteq> 0" "status \<noteq> 0"
      "write_file p (metadata_path_of m) (metadata_content p w m (st_ctime f)) (files w)
         = (err, fs0)"
      "mp = (case err of None \<Rightarrow> Some (metadata_path_of m) | Some e \<Rightarrow> None)"
      "msg = (case err of
          None \<Rightarrow> check_mark @ '' Model metadata created: '' @ metadata_path_of m
        | Some e \<Rightarrow> warning_sign @ ''  Warning: Could not create metadata file: '' @ e)"
      "create_zip_archive p m z w = Return False wa"
      "trace wa = trace w @
           [Print (package_sign @ '' Creating zip file...''),
            Print (check_mark @ '' Model file validated: '' @ m @ '' (''
                     @ get_file_size_mb p w m @ '')''),
            WriteFile (metadata_path_of m) (metadata_content p w m (st_ctime f)),
            Print msg,
            System (zip_command w2 z m mp) status,
            Print (cross_mark @ '' Error: Failed to create zip file (exit code: ''
                     @ str_int status @ '')'')]"
      "msg \<noteq> simulation_message"
  | (archived) f err fs0 mp w2 msg wa where
      "files w m = Some f" "st_size f \<noteq> 0"
      "write_file p (metadata_path_of m) (metadata_content p w m (st_ctime f)) (files w)
         = (err, fs0)"
      "mp = (case err of None \<Rightarrow> Some (metadata_path_of m) | Some e \<Rightarrow> None)"
      "msg = (case err of
          None \<Rightarrow> check_mark @ '' Model metadata created: '' @ metadata_path_of m
        | Some e \<Rightarrow> warning_sign @ ''  Warning: Could not create metadata file: '' @ e)"
      "create_zip_archive p m z w = Return True wa"
      "trace wa = trace w @
           [Print (package_sign @ '' Creating zip file...''),
            Print (check_mark @ '' Model file validated: '' @ m @ '' (''
                     @ get_file_size_mb p w m @ '')''),
            WriteFile (metadata_path_of m) (metadata_content p w m (st_ctime f)),
            Print msg,
            System (zip_command w2 z m mp) 0]"
      "msg \<noteq> simulation_message"
proof (cases "files w m")
  case None
  then have run: "create_zip_archive p m z w
         = Return False (print (cross_mark @ '' Error: Model file '' @ [CHR 0x27] @ m
                                    @ [CHR 0x27] @ '' not found'')
                           (print (package_sign @ '' Creating zip file...'') w))"
    by (simp add: create_zip_archive_def validate_model_file_missing)
  have inv: "value_of (validate_model_file p m w) \<noteq> Some True"
    using None by (simp add: validate_model_file_True_iff)
  have pre: "prefix cross_mark (cross_mark @ '' Error: Model file '' @ [CHR 0x27] @ m
                                    @ [CHR 0x27] @ '' not found'')"
    by simp
  show thesis
    by (rule invalid [OF inv run pre])
next
  case (Some f)
  show thesis
  proof (cases "st_size f = 0")
    case True
    have "files (print (package_sign @ '' Creating zip file...'') w) m = Some f"
      using Some by simp
    then have run: "create_zip_archive p m z w
         = Return False (print (cross_mark @ '' Error: Model file '' @ [CHR 0x27] @ m
                                    @ [CHR 0x27] @ '' is empty'')
                           (print (package_sign @ '' Creating zip file...'') w))"
      using True by (simp add: create_zip_archive_def validate_model_file_empty)
    have inv: "value_of (validate_model_file p m w) \<noteq> Some True"
      using Some True by (simp add: validate_model_file_True_iff)
    have pre: "prefix cross_mark (cross_mark @ '' Error: Model file '' @ [CHR 0x27] @ m
                                    @ [CHR 0x27] @ '' is empty'')"
      by simp
    show thesis
      by (rule invalid [OF inv run pre])
  next
    case False
    show thesis
    proof (rule create_zip_archive_valid_run [OF Some False, of p z])
    fix err :: "string option" and fs0 fs :: filesystem and mp w2 msg and status :: int
    assume wr: "write_file p (metadata_path_of m) (metadata_content p w m (st_ctime f)) (files w)
                  = (err, fs0)"
      and mp: "mp = (case err of None \<Rightarrow> Some (metadata_path_of m) | Some e \<Rightarrow> None)"
      and msg: "msg = (case err of
          None \<Rightarrow> check_mark @ '' Model metadata created: '' @ metadata_path_of m
        | Some e \<Rightarrow> warning_sign @ ''  Warning: Could not create metadata file: '' @ e)"
      and tr: "trace w2 = trace w @
           [Print (package_sign @ '' Creating zip file...''),
            Print (check_mark @ '' Model file validated: '' @ m @ '' (''
                     @ get_file_size_mb p w m @ '')''),
            WriteFile (metadata_path_of m) (metadata_content p w m (st_ctime f)),
            Print msg]"
      and ms: "msg \<noteq> simulation_message"
      and run: "create_zip_archive p m z w
           = (if status \<noteq> 0
              then Return False
                     (print (cross_mark @ '' Error: Failed to create zip file (exit code: ''
                               @ str_int status @ '')'')
                        (w2\<lparr>files := fs,
                             trace := trace w2 @ [System (zip_command w2 z m mp) status]\<rparr>))
              else Return True
                     (w2\<lparr>files := fs,
                          trace := trace w2 @ [System (zip_command w2 z m mp) status]\<rparr>))"
    define w3 where "w3 = w2\<lparr>files := fs,
                             trace := trace w2 @ [System (zip_command w2 z m mp) status]\<rparr>"
    have tr3: "trace w3 = trace w @
           [Print (package_sign @ '' Creating zip file...''),
            Print (check_mark @ '' Model file validated: '' @ m @ '' (''
                     @ get_file_size_mb p w m @ '')''),
            WriteFile (metadata_path_of m) (metadata_content p w m (st_ctime f)),
            Print msg,
            System (zip_command w2 z m mp) status]"
      unfolding w3_def by (simp add: tr)
    show thesis
    proof (cases "status = 0")
      case True
      have r: "create_zip_archive p m z w = Return True w3"
        unfolding run w3_def using True by simp
      show thesis
        by (rule archived [OF Some False wr mp msg r tr3 [unfolded True] ms])
    next
      case nz: False
      define wa where "wa = print (cross_mark @ '' Error: Failed to create zip file (exit code: ''
                               @ str_int status @ '')'') w3"
      have r: "create_zip_archive p m z w = Return False wa"
        unfolding run w3_def wa_def using nz by simp
      have tra: "trace wa = trace w @
           [Print (package_sign @ '' Creating zip file...''),
            Print (check_mark @ '' Model file validated: '' @ m @ '' (''
                     @ get_file_size_mb p w m @ '')''),
            WriteFile (metadata_path_of m) (metadata_content p w m (st_ctime f)),
            Print msg,
            System (zip_command w2 z m mp) status,
            Print (cross_mark @ '' Error: Failed to create zip file (exit code: ''
                     @ str_int status @ '')'')]"
        unfolding wa_def by (simp add: tr3)
      show thesis
        by (rule zip_failed [OF Some False nz wr mp msg r tra ms])
    qed
    qed
  qed
qed

lemma module_init_trace:
  "trace (module_init p w) = trace w @ new_events w (module_init p w)"
  by (simp add: module_init_def new_events_def)

lemma module_init_events:
  "new_events w (module_init p w)
     = (if IN_COLAB p then []
        else [Print (warning_sign @ ''  Note: Not running in Google Colab environment''),
              Print ''   files.download() functionality will be simulated''])"
  by (simp add: module_init_def new_events_def)

lemma get_file_size_mb_files:
  "files w' = files w \<Longrightarrow> get_file_size_mb p w' path = get_file_size_mb p w path"
  by (simp add: get_file_size_mb_def os_path_exists_def os_path_getsize_def)

lemma metadata_content_files:
  "files w' = files w \<Longrightarrow> metadata_content p w' m t = metadata_content p w m t"
  by (simp add: metadata_content_def get_file_size_mb_def os_path_exists_def os_path_getsize_def)

lemma validate_value:
  "value_of (validate_model_file p m w)
     = (case files w m of None \<Rightarrow> Some False | Some f \<Rightarrow> Some (st_size f \<noteq> 0))"
  by (simp add: validate_model_file_def os_path_exists_def os_path_getsize_def
        split: option.split)

lemma validate_value_files:
  "files w' = files w \<Longrightarrow>
     value_of (validate_model_file p m w') = value_of (validate_model_file p m w)"
  by (simp add: validate_value)

text \<open>The three ways a run of the whole script can go.\<close>

lemma script_cases [case_names invalid zip_failed archived]:
  obtains
    (invalid) errmsg where
      "value_of (validate_model_file p ''fin_disease.pth'' w) \<noteq> Some True"
      "new_events w (world_of (script p w))
         = new_events w (module_init p w) @
           [Print (rocket_sign @ '' Starting model download process...''),
            Print (replicate 50 CHR ''=''),
            Print (package_sign @ '' Creating zip file...''),
            Print errmsg,
            Print (cross_mark @ '' Failed to create zip archive. Aborting.'')]"
      "prefix cross_mark errmsg"
      "exit_code (script p w) = 1"
  | (zip_failed) f err fs0 mp w2 msg status where
      "files w ''fin_disease.pth'' = Some f" "st_size f \<noteq> 0" "status \<noteq> 0"
      "write_file p (metadata_path_of ''fin_disease.pth'')
         (metadata_content p w ''fin_disease.pth'' (st_ctime f)) (files w) = (err, fs0)"
      "mp = (case err of None \<Rightarrow> Some (metadata_path_of ''fin_disease.pth'') | Some e \<Rightarrow> None)"
      "msg = (case err of
          None \<Rightarrow> check_mark @ '' Model metadata created: ''
                    @ metadata_path_of ''fin_disease.pth''
        | Some e \<Rightarrow> warning_sign @ ''  Warning: Could not create metadata file: '' @ e)"
      "new_events w (world_of (script p w))
         = new_events w (module_init p w) @
           [Print (rocket_sign @ '' Starting model download process...''),
            Print (replicate 50 CHR ''=''),
            Print (package_sign @ '' Creating zip file...''),
            Print (check_mark @ '' Model file validated: '' @ ''fin_disease.pth'' @ '' (''
                     @ get_file_size_mb p w ''fin_disease.pth'' @ '')''),
            WriteFile (metadata_path_of ''fin_disease.pth'')
              (metadata_content p w ''fin_disease.pth'' (st_ctime f)),
            Print msg,
            System (zip_command w2 ''fin_disease.zip'' ''fin_disease.pth'' mp) status,
            Print (cross_mark @ '' Error: Failed to create zip file (exit code: ''
                     @ str_int status @ '')''),
            Print (cross_mark @ '' Failed to create zip archive. Aborting.'')]"
      "exit_code (script p w) = 1"
  | (archived) f err fs0 mp w2 msg wa where
      "files w ''fin_disease.pth'' = Some f" "st_size f \<noteq> 0"
      "write_file p (metadata_path_of ''fin_disease.pth'')
         (metadata_content p w ''fin_disease.pth'' (st_ctime f)) (files w) = (err, fs0)"
      "mp = (case err of None \<Rightarrow> Some (metadata_path_of ''fin_disease.pth'') | Some e \<Rightarrow> None)"
      "msg = (case err of
          None \<Rightarrow> check_mark @ '' Model metadata created: ''
                    @ metadata_path_of ''fin_disease.pth''
        | Some e \<Rightarrow> warning_sign @ ''  Warning: Could not create metadata file: '' @ e)"
      "new_events w (world_of (script p w))
         = new_events w (module_init p w) @
           [Print (rocket_sign @ '' Starting model download process...''),
            Print (replicate 50 CHR ''=''),
            Print (package_sign @ '' Creating zip file...''),
            Print (check_mark @ '' Model file validated: '' @ ''fin_disease.pth'' @ '' (''
                     @ get_file_size_mb p w ''fin_disease.pth'' @ '')''),
            WriteFile (metadata_path_of ''fin_disease.pth'')
              (metadata_content p w ''fin_disease.pth'' (st_ctime f)),
            Print msg,
            System (zip_command w2 ''fin_disease.zip'' ''fin_disease.pth'' mp) 0] @
           new_events wa (world_of (download_model_zip p ''fin_disease.zip'' wa)) @
           (if value_of (download_model_zip p ''fin_disease.zip'' wa) = Some True
            then [Print (replicate 50 CHR ''=''),
                  Print (party_sign @ '' Model download process completed successfully!'')]
            else [Print (cross_mark @ '' Failed to download zip file. Aborting.'')])"
      "exit_code (script p w)
         = (if value_of (download_model_zip p ''fin_disease.zip'' wa) = Some True then 0 else 1)"
proof -
  define w0 where "w0 = module_init p w"
  define w1 where "w1 = print (replicate 50 CHR ''='')
                          (print (rocket_sign @ '' Starting model download process...'') w0)"
  have f1: "files w1 = files w"
    by (simp add: w1_def w0_def)
  have t0: "trace w0 = trace w @ new_events w (module_init p w)"
    unfolding w0_def by (rule module_init_trace)
  have t1: "trace w1 = trace w0 @
              [Print (rocket_sign @ '' Starting model download process...''),
               Print (replicate 50 CHR ''='')]"
    by (simp add: w1_def)
  have sc: "script p w = main p w0"
    by (simp add: script_def w0_def)
  have mc: "metadata_content p w1 ''fin_disease.pth'' t = metadata_content p w ''fin_disease.pth'' t"
    for t by (rule metadata_content_files [OF f1])
  have gs: "get_file_size_mb p w1 ''fin_disease.pth'' = get_file_size_mb p w ''fin_disease.pth''"
    by (rule get_file_size_mb_files [OF f1])
  show thesis
  proof (cases rule: create_zip_archive_cases
                [where p = p and m = "''fin_disease.pth''" and w = w1 and z = "''fin_disease.zip''"])
    case (invalid errmsg)
    let ?wa = "print errmsg (print (package_sign @ '' Creating zip file...'') w1)"
    have run: "create_zip_archive p ''fin_disease.pth'' ''fin_disease.zip''
                 (print (replicate 50 CHR ''='')
                    (print (rocket_sign @ '' Starting model download process...'') w0))
                 = Return False ?wa"
      using invalid(2) by (simp add: w1_def)
    have tr: "trace ?wa = trace w0 @
              [Print (rocket_sign @ '' Starting model download process...''),
               Print (replicate 50 CHR ''=''),
               Print (package_sign @ '' Creating zip file...''),
               Print errmsg]"
      by (simp add: t1)
    have v: "value_of (validate_model_file p ''fin_disease.pth'' w) \<noteq> Some True"
      using invalid(1) validate_value_files [OF f1] by simp
    have ev: "new_events w (world_of (script p w))
         = new_events w (module_init p w) @
           [Print (rocket_sign @ '' Starting model download process...''),
            Print (replicate 50 CHR ''=''),
            Print (package_sign @ '' Creating zip file...''),
            Print errmsg,
            Print (cross_mark @ '' Failed to create zip archive. Aborting.'')]"
      by (rule new_events_append) (simp add: sc main_events(1) [OF run tr] t0)
    have ex: "exit_code (script p w) = 1"
      by (simp add: sc main_events(2) [OF run tr])
    show thesis
      by (rule that(1) [OF v ev invalid(3) ex])
  next
    case (zip_failed f err fs0 mp w2 msg status wa)
    have run: "create_zip_archive p ''fin_disease.pth'' ''fin_disease.zip''
                 (print (replicate 50 CHR ''='')
                    (print (rocket_sign @ '' Starting model download process...'') w0))
                 = Return False wa"
      using zip_failed(7) by (simp add: w1_def)
    have tr: "trace wa = trace w0 @
           [Print (rocket_sign @ '' Starting model download process...''),
            Print (replicate 50 CHR ''=''),
            Print (package_sign @ '' Creating zip file...''),
            Print (check_mark @ '' Model file validated: '' @ ''fin_disease.pth'' @ '' (''
                     @ get_file_size_mb p w ''fin_disease.pth'' @ '')''),
            WriteFile (metadata_path_of ''fin_disease.pth'')
              (metadata_content p w ''fin_disease.pth'' (st_ctime f)),
            Print msg,
            System (zip_command w2 ''fin_disease.zip'' ''fin_disease.pth'' mp) status,
            Print (cross_mark @ '' Error: Failed to create zip file (exit code: ''
                     @ str_int status @ '')'')]"
      unfolding zip_failed(8) mc gs by (simp add: t1)
    have ev: "new_events w (world_of (script p w))
         = new_events w (module_init p w) @
           [Print (rocket_sign @ '' Starting model download process...''),
            Print (replicate 50 CHR ''=''),
            Print (package_sign @ '' Creating zip file...''),
            Print (check_mark @ '' Model file validated: '' @ ''fin_disease.pth'' @ '' (''
                     @ get_file_size_mb p w ''fin_disease.pth'' @ '')''),
            WriteFile (metadata_path_of ''fin_disease.pth'')
              (metadata_content p w ''fin_disease.pth'' (st_ctime f)),
            Print msg,
            System (zip_command w2 ''fin_disease.zip'' ''fin_disease.pth'' mp) status,
            Print (cross_mark @ '' Error: Failed to create zip file (exit code: ''
                     @ str_int status @ '')''),
            Print (cross_mark @ '' Failed to create zip archive. Aborting.'')]"
      by (rule new_events_append) (simp add: sc main_events(1) [OF run tr] t0)
    have ex: "exit_code (script p w) = 1"
      by (simp add: sc main_events(2) [OF run tr])
    show thesis
      by (rule that(2) [OF zip_failed(1) [unfolded f1] zip_failed(2,3)
                zip_failed(4) [unfolded f1 mc] zip_failed(5,6) ev ex])
  next
    case (archived f err fs0 mp w2 msg wa)
    have run: "create_zip_archive p ''fin_disease.pth'' ''fin_disease.zip''
                 (print (replicate 50 CHR ''='')
                    (print (rocket_sign @ '' Starting model download process...'') w0))
                 = Return True wa"
      using archived(6) by (simp add: w1_def)
    have tr: "trace wa = trace w0 @
           [Print (rocket_sign @ '' Starting model download process...''),
            Print (replicate 50 CHR ''=''),
            Print (package_sign @ '' Creating zip file...''),
            Print (check_mark @ '' Model file validated: '' @ ''fin_disease.pth'' @ '' (''
                     @ get_file_size_mb p w ''fin_disease.pth'' @ '')''),
            WriteFile (metadata_path_of ''fin_disease.pth'')
              (metadata_content p w ''fin_disease.pth'' (st_ctime f)),
            Print msg,
            System (zip_command w2 ''fin_disease.zip'' ''fin_disease.pth'' mp) 0]"
      unfolding archived(7) mc gs by (simp add: t1)
    have ev: "new_events w (world_of (script p w))
         = new_events w (module_init p w) @
           [Print (rocket_sign @ '' Starting model download process...''),
            Print (replicate 50 CHR ''=''),
            Print (package_sign @ '' Creating zip file...''),
            Print (check_mark @ '' Model file validated: '' @ ''fin_disease.pth'' @ '' (''
                     @ get_file_size_mb p w ''fin_disease.pth'' @ '')''),
            WriteFile (metadata_path_of ''fin_disease.pth'')
              (metadata_content p w ''fin_disease.pth'' (st_ctime f)),
            Print msg,
            System (zip_command w2 ''fin_disease.zip'' ''fin_disease.pth'' mp) 0] @
           new_events wa (world_of (download_model_zip p ''fin_disease.zip'' wa)) @
           (if value_of (download_model_zip p ''fin_disease.zip'' wa) = Some True
            then [Print (replicate 50 CHR ''=''),
                  Print (party_sign @ '' Model download process completed successfully!'')]
            else [Print (cross_mark @ '' Failed to download zip file. Aborting.'')])"
      by (rule new_events_append) (simp add: sc main_events(1) [OF run tr] t0)
    have ex: "exit_code (script p w)
         = (if value_of (download_model_zip p ''fin_disease.zip'' wa) = Some True then 0 else 1)"
      by (simp add: sc main_events(2) [OF run tr])
    show thesis
      by (rule that(3) [OF archived(1) [unfolded f1] archived(2)
                archived(3) [unfolded f1 mc] archived(4,5) ev ex])
  qed
qed

lemma bar_head: "replicate 50 CHR ''='' = CHR ''='' # replicate 49 CHR ''=''"
proof -
  have "(50::nat) = Suc 49"
    by simp
  then show ?thesis
    by (simp only: replicate_Suc)
qed

lemmas sign_defs =
  simulation_message_def validated_prefix_def rocket_sign_def package_sign_def
  cross_mark_def check_mark_def arrows_sign_def party_sign_def warning_sign_def

lemma prefix_cross_markE:
  assumes "prefix cross_mark s"
  obtains t where "s = cross_mark @ t"
  using assms by (auto simp add: prefix_def)

subsection \<open>Concrete runs\<close>

lemmas run_defs =
  script_def main_def module_init_def create_zip_archive_def validate_model_file_def
  create_model_metadata_def download_model_zip_def zip_command_def
  os_path_exists_def os_path_getsize_def os_path_getctime_def
  print_def new_events_def demo_platform_def world_with_file_def empty_world_def Let_def

lemma metadata_path_of_model: "metadata_path_of ''fin_disease.pth'' = ''fin_disease_info.txt''"
  by (simp add: metadata_path_of_def os_path_splitext_def rfind_def splitext_scan.simps)

lemma demo_write_failure_exit:
  "exit_code (script (demo_platform False (Some ''Permission denied'') 0)
               (world_with_file ''fin_disease.pth'' 1550)) = 0"
  by (simp add: run_defs metadata_path_of_model)

lemma demo_zip_failure_event:
  "System ''zip -r fin_disease.zip fin_disease.pth fin_disease_info.txt'' 3840
     \<in> set (new_events (world_with_file ''fin_disease.pth'' 1550)
               (world_of (script (demo_platform False None 3840)
                            (world_with_file ''fin_disease.pth'' 1550))))"
  by (simp add: run_defs metadata_path_of_model)

lemma demo_archive_command:
  "validate_model_file (demo_platform False None 0) ''fin_disease.pth''
     (print (package_sign @ '' Creating zip file...'') (world_with_file ''fin_disease.pth'' 1550))
     = Return True
         (world_of (validate_model_file (demo_platform False None 0) ''fin_disease.pth''
            (print (package_sign @ '' Creating zip file...'')
               (world_with_file ''fin_disease.pth'' 1550))))"
  "create_model_metadata (demo_platform False None 0) ''fin_disease.pth''
     (world_of (validate_model_file (demo_platform False None 0) ''fin_disease.pth''
        (print (package_sign @ '' Creating zip file...'')
           (world_with_file ''fin_disease.pth'' 1550))))
     = Return (Some ''fin_disease_info.txt'')
         (world_of (create_model_metadata (demo_platform False None 0) ''fin_disease.pth''
            (world_of (validate_model_file (demo_platform False None 0) ''fin_disease.pth''
               (print (package_sign @ '' Creating zip file...'')
                  (world_with_file ''fin_disease.pth'' 1550))))))"
  "os_path_exists
     (world_of (create_model_metadata (demo_platform False None 0) ''fin_disease.pth''
        (world_of (validate_model_file (demo_platform False None 0) ''fin_disease.pth''
           (print (package_sign @ '' Creating zip file...'')
              (world_with_file ''fin_disease.pth'' 1550))))))
     ''fin_disease_info.txt''"
  by (simp_all add: run_defs metadata_path_of_model)

lemma demo_command_without_metadata:
  "\<not> sublist (metadata_path_of ''fin_disease.pth'')
       (''zip -r '' @ ''fin_disease.zip'' @ '' '' @ ''fin_disease.pth'')"
  by (simp add: metadata_path_of_model sublist_code)

subsection \<open>The pipeline\<close>

text \<open>
  C7. In every run, the metadata file is written and the shell command is run only after
  the validation of the model file has passed, and the transfer (real or simulated) is
  reached only after a shell command that returned 0: the trace of the script, and of
  \<open>create_zip_archive\<close> for any paths, is in stage order. When validation does not pass,
  the run contains no write, no shell command and no transfer; when the shell command
  returns a non-zero status, it contains no transfer.
\<close>

theorem pipeline_stage_order:
  "stages_in_order False False (new_events w (world_of (script p w)))
   \<and> stages_in_order False False
        (new_events w (world_of (create_zip_archive p model_path zip_name w)))
   \<and> (value_of (validate_model_file p ''fin_disease.pth'' w) \<noteq> Some True \<longrightarrow>
        list_all (\<lambda>e. \<not> is_write e \<and> \<not> is_system e \<and> \<not> is_download e
                        \<and> e \<noteq> Print simulation_message)
          (new_events w (world_of (script p w))))
   \<and> (value_of (validate_model_file p model_path w) \<noteq> Some True \<longrightarrow>
        list_all (\<lambda>e. \<not> is_write e \<and> \<not> is_system e)
          (new_events w (world_of (create_zip_archive p model_path zip_name w))))
   \<and> (\<forall>cmd status. System cmd status \<in> set (new_events w (world_of (script p w))) \<longrightarrow>
        status \<noteq> 0 \<longrightarrow>
        list_all (\<lambda>e. \<not> is_download e \<and> e \<noteq> Print simulation_message)
          (new_events w (world_of (script p w))))"
proof (intro conjI)
  show "stages_in_order False False (new_events w (world_of (script p w)))"
  proof (cases rule: script_cases [where p = p and w = w])
    case (invalid errmsg)
    from invalid(3) obtain t where t: "errmsg = cross_mark @ t"
      by (rule prefix_cross_markE)
    show ?thesis
      unfolding invalid(2) t
      by (simp add: module_init_events sign_defs bar_head)
  next
    case (zip_failed f err fs0 mp w2 msg status)
    show ?thesis
      unfolding zip_failed(7) zip_failed(6)
      by (cases err) (simp_all add: module_init_events sign_defs bar_head)
  next
    case (archived f err fs0 mp w2 msg wa)
    show ?thesis
      unfolding archived(6) archived(5)
      by (cases err) (simp_all add: module_init_events sign_defs bar_head)
  qed
next
  show "stages_in_order False False
          (new_events w (world_of (create_zip_archive p model_path zip_name w)))"
  proof (cases rule: create_zip_archive_cases
           [where p = p and m = model_path and w = w and z = zip_name])
    case (invalid errmsg)
    from invalid(3) obtain t where t: "errmsg = cross_mark @ t"
      by (rule prefix_cross_markE)
    show ?thesis
      unfolding invalid(2) t
      by (simp add: new_events_def sign_defs)
  next
    case (zip_failed f err fs0 mp w2 msg status wa)
    show ?thesis
      unfolding zip_failed(7) world_of.simps new_events_append [OF zip_failed(8)] zip_failed(6)
      by (cases err) (simp_all add: sign_defs)
  next
    case (archived f err fs0 mp w2 msg wa)
    show ?thesis
      unfolding archived(6) world_of.simps new_events_append [OF archived(7)] archived(5)
      by (cases err) (simp_all add: sign_defs)
  qed
next
  show "value_of (validate_model_file p ''fin_disease.pth'' w) \<noteq> Some True \<longrightarrow>
        list_all (\<lambda>e. \<not> is_write e \<and> \<not> is_system e \<and> \<not> is_download e
                        \<and> e \<noteq> Print simulation_message)
          (new_events w (world_of (script p w)))"
  proof (cases rule: script_cases [where p = p and w = w])
    case (invalid errmsg)
    from invalid(3) obtain t where t: "errmsg = cross_mark @ t"
      by (rule prefix_cross_markE)
    show ?thesis
      unfolding invalid(2) t
      by (simp add: module_init_events sign_defs bar_head)
  next
    case (zip_failed f err fs0 mp w2 msg status)
    then show ?thesis
      by (simp add: validate_model_file_True_iff)
  next
    case (archived f err fs0 mp w2 msg wa)
    then show ?thesis
      by (simp add: validate_model_file_True_iff)
  qed
next
  show "value_of (validate_model_file p model_path w) \<noteq> Some True \<longrightarrow>
        list_all (\<lambda>e. \<not> is_write e \<and> \<not> is_system e)
          (new_events w (world_of (create_zip_archive p model_path zip_name w)))"
  proof (cases rule: create_zip_archive_cases
           [where p = p and m = model_path and w = w and z = zip_name])
    case (invalid errmsg)
    show ?thesis
      unfolding invalid(2) by (simp add: new_events_def)
  next
    case (zip_failed f err fs0 mp w2 msg status wa)
    then show ?thesis
      by (simp add: validate_model_file_True_iff)
  next
    case (archived f err fs0 mp w2 msg wa)
    then show ?thesis
      by (simp add: validate_model_file_True_iff)
  qed
next
  show "\<forall>cmd status. System cmd status \<in> set (new_events w (world_of (script p w))) \<longrightarrow>
        status \<noteq> 0 \<longrightarrow>
        list_all (\<lambda>e. \<not> is_download e \<and> e \<noteq> Print simulation_message)
          (new_events w (world_of (script p w)))"
  proof (cases rule: script_cases [where p = p and w = w])
    case (invalid errmsg)
    from invalid(3) obtain t where t: "errmsg = cross_mark @ t"
      by (rule prefix_cross_markE)
    show ?thesis
      unfolding invalid(2) t
      by (simp add: module_init_events sign_defs bar_head)
  next
    case (zip_failed f err fs0 mp w2 msg status)
    show ?thesis
      unfolding zip_failed(7) zip_failed(6)
      by (cases err) (simp_all add: module_init_events sign_defs bar_head)
  next
    case (archived f err fs0 mp w2 msg wa)
    have "\<not> is_system e"
      if "e \<in> set (new_events wa (world_of (download_model_zip p ''fin_disease.zip'' wa)))" for e
      using download_model_zip_events [of wa p "''fin_disease.zip''"] that
      by (simp add: list_all_iff)
    then have "System cmd status
                 \<notin> set (new_events wa (world_of (download_model_zip p ''fin_disease.zip'' wa)))"
      for cmd status
      by force
    moreover have "System cmd status \<notin> set (new_events w (module_init p w))" for cmd status
      by (simp add: module_init_events)
    ultimately show ?thesis
      unfolding archived(6) by simp
  qed
qed

theorem pipeline_stage_order_witness:
  "value_of (validate_model_file (demo_platform False None 0) ''fin_disease.pth'' empty_world)
     \<noteq> Some True
   \<and> list_all (\<lambda>e. \<not> is_write e \<and> \<not> is_system e \<and> \<not> is_download e
                    \<and> e \<noteq> Print simulation_message)
        (new_events empty_world (world_of (script (demo_platform False None 0) empty_world)))
   \<and> list_all (\<lambda>e. \<not> is_write e \<and> \<not> is_system e)
        (new_events empty_world
           (world_of (create_zip_archive (demo_platform False None 0) ''fin_disease.pth''
                        ''fin_disease.zip'' empty_world)))
   \<and> System ''zip -r fin_disease.zip fin_disease.pth fin_disease_info.txt'' 3840
       \<in> set (new_events (world_with_file ''fin_disease.pth'' 1550)
                 (world_of (script (demo_platform False None 3840)
                              (world_with_file ''fin_disease.pth'' 1550))))
   \<and> (3840::int) \<noteq> 0
   \<and> list_all (\<lambda>e. \<not> is_download e \<and> e \<noteq> Print simulation_message)
        (new_events (world_with_file ''fin_disease.pth'' 1550)
           (world_of (script (demo_platform False None 3840)
                        (world_with_file ''fin_disease.pth'' 1550))))
   \<and> stages_in_order False False
        (new_events (world_with_file ''fin_disease.pth'' 1550)
           (world_of (script (demo_platform False None 3840)
                        (world_with_file ''fin_disease.pth'' 1550))))"
proof -
  let ?p = "demo_platform False None 0"
  let ?pz = "demo_platform False None 3840"
  let ?w = "world_with_file ''fin_disease.pth'' 1550"
  have v: "value_of (validate_model_file ?p ''fin_disease.pth'' empty_world) \<noteq> Some True"
    by (simp add: validate_model_file_True_iff empty_world_def)
  have nz: "(3840::int) \<noteq> 0"
    by simp
  note t1 = pipeline_stage_order [of empty_world ?p "''fin_disease.pth''" "''fin_disease.zip''"]
  note t2 = pipeline_stage_order [of ?w ?pz "''fin_disease.pth''" "''fin_disease.zip''"]
  from t1 v have a: "list_all (\<lambda>e. \<not> is_write e \<and> \<not> is_system e \<and> \<not> is_download e
                    \<and> e \<noteq> Print simulation_message)
        (new_events empty_world (world_of (script ?p empty_world)))"
    by (elim conjE impE)
  from t1 v have b: "list_all (\<lambda>e. \<not> is_write e \<and> \<not> is_system e)
        (new_events empty_world
           (world_of (create_zip_archive ?p ''fin_disease.pth'' ''fin_disease.zip'' empty_world)))"
    by (elim conjE impE)
  from t2 have "\<forall>cmd status. System cmd status \<in> set (new_events ?w (world_of (script ?pz ?w)))
        \<longrightarrow> status \<noteq> 0 \<longrightarrow>
        list_all (\<lambda>e. \<not> is_download e \<and> e \<noteq> Print simulation_message)
          (new_events ?w (world_of (script ?pz ?w)))"
    by (elim conjE)
  with demo_zip_failure_event nz
  have c: "list_all (\<lambda>e. \<not> is_download e \<and> e \<noteq> Print simulation_message)
          (new_events ?w (world_of (script ?pz ?w)))"
    by (elim allE impE)
  from t2 have d: "stages_in_order False False (new_events ?w (world_of (script ?pz ?w)))"
    by (elim conjE)
  show ?thesis
    using v a b demo_zip_failure_event nz c d by (intro conjI)
qed

lemma no_system_in_download:
  "System cmd status
     \<notin> set (new_events wa (world_of (download_model_zip p z wa)))"
proof
  assume "System cmd status \<in> set (new_events wa (world_of (download_model_zip p z wa)))"
  with download_model_zip_events [of wa p z] have "\<not> is_system (System cmd status)"
    by (auto simp add: list_all_iff)
  then show False
    by simp
qed

lemma no_system_in_module_init:
  "System cmd status \<notin> set (new_events w (module_init p w))"
  by (simp add: module_init_events)

text \<open>
  C6. \<open>create_zip_archive\<close> returns true exactly when a shell command of the run returned
  status 0. When validation passes, the run has exactly one shell command, and the result
  is whether its status is 0. In a run of the script, a shell command with a non-zero status
  makes the process exit with code 1.
\<close>

theorem archive_success_iff_exit_status:
  "(value_of (create_zip_archive p model_path zip_name w) = Some True
      \<longleftrightarrow> (\<exists>cmd. System cmd 0
                  \<in> set (new_events w (world_of (create_zip_archive p model_path zip_name w)))))
   \<and> (value_of (validate_model_file p model_path w) = Some True \<longrightarrow>
        (\<exists>cmd status.
            filter is_system (new_events w (world_of (create_zip_archive p model_path zip_name w)))
              = [System cmd status]
            \<and> value_of (create_zip_archive p model_path zip_name w) = Some (status = 0)))
   \<and> (\<forall>cmd status. System cmd status \<in> set (new_events w (world_of (script p w))) \<longrightarrow>
        status \<noteq> 0 \<longrightarrow> exit_code (script p w) = 1)"
proof (intro conjI)
  show "value_of (create_zip_archive p model_path zip_name w) = Some True
      \<longleftrightarrow> (\<exists>cmd. System cmd 0
                  \<in> set (new_events w (world_of (create_zip_archive p model_path zip_name w))))"
  proof (cases rule: create_zip_archive_cases
           [where p = p and m = model_path and w = w and z = zip_name])
    case (invalid errmsg)
    show ?thesis
      unfolding invalid(2) by (simp add: new_events_def)
  next
    case (zip_failed f err fs0 mp w2 msg status wa)
    show ?thesis
      unfolding zip_failed(7) world_of.simps new_events_append [OF zip_failed(8)]
      using zip_failed(3) by simp
  next
    case (archived f err fs0 mp w2 msg wa)
    show ?thesis
      unfolding archived(6) world_of.simps new_events_append [OF archived(7)]
      by simp
  qed
next
  show "value_of (validate_model_file p model_path w) = Some True \<longrightarrow>
        (\<exists>cmd status.
            filter is_system (new_events w (world_of (create_zip_archive p model_path zip_name w)))
              = [System cmd status]
            \<and> value_of (create_zip_archive p model_path zip_name w) = Some (status = 0))"
  proof (cases rule: create_zip_archive_cases
           [where p = p and m = model_path and w = w and z = zip_name])
    case (invalid errmsg)
    then show ?thesis
      by simp
  next
    case (zip_failed f err fs0 mp w2 msg status wa)
    show ?thesis
      unfolding zip_failed(7) world_of.simps new_events_append [OF zip_failed(8)]
      using zip_failed(3) by simp
  next
    case (archived f err fs0 mp w2 msg wa)
    show ?thesis
      unfolding archived(6) world_of.simps new_events_append [OF archived(7)]
      by simp
  qed
next
  show "\<forall>cmd status. System cmd status \<in> set (new_events w (world_of (script p w))) \<longrightarrow>
        status \<noteq> 0 \<longrightarrow> exit_code (script p w) = 1"
  proof (cases rule: script_cases [where p = p and w = w])
    case (invalid errmsg)
    then show ?thesis
      by simp
  next
    case (zip_failed f err fs0 mp w2 msg status)
    then show ?thesis
      by simp
  next
    case (archived f err fs0 mp w2 msg wa)
    show ?thesis
      unfolding archived(6)
      by (simp add: no_system_in_download no_system_in_module_init)
  qed
qed

theorem archive_success_iff_exit_status_witness:
  "value_of (validate_model_file (demo_platform False None 3840) ''fin_disease.pth''
               (world_with_file ''fin_disease.pth'' 1550)) = Some True
   \<and> System ''zip -r fin_disease.zip fin_disease.pth fin_disease_info.txt'' 3840
       \<in> set (new_events (world_with_file ''fin_disease.pth'' 1550)
                 (world_of (script (demo_platform False None 3840)
                              (world_with_file ''fin_disease.pth'' 1550))))
   \<and> (3840::int) \<noteq> 0
   \<and> exit_code (script (demo_platform False None 3840)
                  (world_with_file ''fin_disease.pth'' 1550)) = 1
   \<and> (\<exists>cmd status.
         filter is_system
           (new_events (world_with_file ''fin_disease.pth'' 1550)
              (world_of (create_zip_archive (demo_platform False None 3840) ''fin_disease.pth''
                           ''fin_disease.zip'' (world_with_file ''fin_disease.pth'' 1550))))
           = [System cmd status]
         \<and> value_of (create_zip_archive (demo_platform False None 3840) ''fin_disease.pth''
                        ''fin_disease.zip'' (world_with_file ''fin_disease.pth'' 1550))
             = Some (status = 0))"
proof -
  let ?p = "demo_platform False None 3840"
  let ?w = "world_with_file ''fin_disease.pth'' 1550"
  have v: "value_of (validate_model_file ?p ''fin_disease.pth'' ?w) = Some True"
    by (simp add: validate_model_file_True_iff world_with_file_def)
  have nz: "(3840::int) \<noteq> 0"
    by simp
  note inst = archive_success_iff_exit_status
               [of ?p "''fin_disease.pth''" "''fin_disease.zip''" ?w]
  from inst have "\<forall>cmd status. System cmd status \<in> set (new_events ?w (world_of (script ?p ?w)))
                   \<longrightarrow> status \<noteq> 0 \<longrightarrow> exit_code (script ?p ?w) = 1"
    by (elim conjE)
  with demo_zip_failure_event nz have ex: "exit_code (script ?p ?w) = 1"
    by (elim allE impE)
  from inst v have one: "\<exists>cmd status.
         filter is_system
           (new_events ?w (world_of (create_zip_archive ?p ''fin_disease.pth''
                                        ''fin_disease.zip'' ?w)))
           = [System cmd status]
         \<and> value_of (create_zip_archive ?p ''fin_disease.pth'' ''fin_disease.zip'' ?w)
             = Some (status = 0)"
    by (elim conjE impE)
  show ?thesis
    using v demo_zip_failure_event nz ex one by (intro conjI)
qed

text \<open>
  C5. When the write of the metadata file raises, \<open>create_model_metadata\<close> catches the
  exception, prints the warning and returns \<open>None\<close>. \<open>create_zip_archive\<close> then still runs
  the shell command, with the archive name and the model path only, and its result is
  whether that command returned 0; the script goes on to the shell command as well.
\<close>

theorem metadata_write_failure_not_fatal:
  assumes "files w model_path = Some f"
    and "write_file p (metadata_path_of model_path)
           (metadata_content p w model_path (st_ctime f)) (files w) = (Some e, fs)"
  shows "create_model_metadata p model_path w
           = Return None
               (print (warning_sign @ ''  Warning: Could not create metadata file: '' @ e)
                  (w\<lparr>files := fs,
                      trace := trace w @ [WriteFile (metadata_path_of model_path)
                                 (metadata_content p w model_path (st_ctime f))]\<rparr>))
         \<and> (st_size f \<noteq> 0 \<longrightarrow>
              (\<exists>status.
                  value_of (create_zip_archive p model_path zip_name w) = Some (status = 0)
                  \<and> filter is_system
                      (new_events w (world_of (create_zip_archive p model_path zip_name w)))
                      = [System (''zip -r '' @ zip_name @ '' '' @ model_path) status]
                  \<and> Print (warning_sign @ ''  Warning: Could not create metadata file: '' @ e)
                      \<in> set (new_events w
                                (world_of (create_zip_archive p model_path zip_name w)))))
         \<and> (model_path = ''fin_disease.pth'' \<longrightarrow> st_size f \<noteq> 0 \<longrightarrow>
              (\<exists>status. System ''zip -r fin_disease.zip fin_disease.pth'' status
                           \<in> set (new_events w (world_of (script p w)))))"
proof (intro conjI impI)
  show "create_model_metadata p model_path w
           = Return None
               (print (warning_sign @ ''  Warning: Could not create metadata file: '' @ e)
                  (w\<lparr>files := fs,
                      trace := trace w @ [WriteFile (metadata_path_of model_path)
                                 (metadata_content p w model_path (st_ctime f))]\<rparr>))"
    unfolding create_model_metadata_exists [OF assms] by simp
next
  assume nz: "st_size f \<noteq> 0"
  show "\<exists>status.
          value_of (create_zip_archive p model_path zip_name w) = Some (status = 0)
          \<and> filter is_system
              (new_events w (world_of (create_zip_archive p model_path zip_name w)))
              = [System (''zip -r '' @ zip_name @ '' '' @ model_path) status]
          \<and> Print (warning_sign @ ''  Warning: Could not create metadata file: '' @ e)
              \<in> set (new_events w (world_of (create_zip_archive p model_path zip_name w)))"
  proof (cases rule: create_zip_archive_cases
           [where p = p and m = model_path and w = w and z = zip_name])
    case (invalid errmsg)
    with assms(1) nz show ?thesis
      by (simp add: validate_model_file_True_iff)
  next
    case (zip_failed f' err fs0 mp w2 msg status wa)
    from zip_failed(1) assms(1) have ff: "f' = f"
      by simp
    from zip_failed(4) assms(2) have err: "err = Some e"
      by (simp add: ff)
    have cmd: "zip_command w2 zip_name model_path mp = ''zip -r '' @ zip_name @ '' '' @ model_path"
      by (simp add: zip_failed(5) err zip_command_def)
    show ?thesis
      unfolding zip_failed(7) world_of.simps new_events_append [OF zip_failed(8)]
        zip_failed(6) err cmd
      by (rule exI [of _ status]) (simp add: zip_failed(3))
  next
    case (archived f' err fs0 mp w2 msg wa)
    from archived(1) assms(1) have ff: "f' = f"
      by simp
    from archived(3) assms(2) have err: "err = Some e"
      by (simp add: ff)
    have cmd: "zip_command w2 zip_name model_path mp = ''zip -r '' @ zip_name @ '' '' @ model_path"
      by (simp add: archived(4) err zip_command_def)
    show ?thesis
      unfolding archived(6) world_of.simps new_events_append [OF archived(7)]
        archived(5) err cmd
      by (rule exI [of _ 0]) simp
  qed
next
  assume m: "model_path = ''fin_disease.pth''" and nz: "st_size f \<noteq> 0"
  show "\<exists>status. System ''zip -r fin_disease.zip fin_disease.pth'' status
                   \<in> set (new_events w (world_of (script p w)))"
  proof (cases rule: script_cases [where p = p and w = w])
    case (invalid errmsg)
    with assms(1) nz m show ?thesis
      by (simp add: validate_model_file_True_iff)
  next
    case (zip_failed f' err fs0 mp w2 msg status)
    from zip_failed(1) assms(1) have ff: "f' = f"
      by (simp add: m)
    from zip_failed(4) assms(2) have err: "err = Some e"
      by (simp add: ff m)
    have cmd: "zip_command w2 ''fin_disease.zip'' ''fin_disease.pth'' mp
                 = ''zip -r fin_disease.zip fin_disease.pth''"
      by (simp add: zip_failed(5) err zip_command_def)
    show ?thesis
      unfolding zip_failed(7) cmd
      by (rule exI [of _ status]) simp
  next
    case (archived f' err fs0 mp w2 msg wa)
    from archived(1) assms(1) have ff: "f' = f"
      by (simp add: m)
    from archived(3) assms(2) have err: "err = Some e"
      by (simp add: ff m)
    have cmd: "zip_command w2 ''fin_disease.zip'' ''fin_disease.pth'' mp
                 = ''zip -r fin_disease.zip fin_disease.pth''"
      by (simp add: archived(4) err zip_command_def)
    show ?thesis
      unfolding archived(6) cmd
      by (rule exI [of _ 0]) simp
  qed
qed

theorem metadata_write_failure_not_fatal_witness:
  "files (world_with_file ''fin_disease.pth'' 1550) ''fin_disease.pth''
     = Some \<lparr>st_size = 1550, st_ctime = 1700000000\<rparr>
   \<and> write_file (demo_platform False (Some ''Permission denied'') 0)
        (metadata_path_of ''fin_disease.pth'')
        (metadata_content (demo_platform False (Some ''Permission denied'') 0)
           (world_with_file ''fin_disease.pth'' 1550) ''fin_disease.pth''
           (st_ctime \<lparr>st_size = 1550, st_ctime = 1700000000\<rparr>))
        (files (world_with_file ''fin_disease.pth'' 1550))
       = (Some ''Permission denied'', files (world_with_file ''fin_disease.pth'' 1550))
   \<and> st_size \<lparr>st_size = 1550, st_ctime = 1700000000\<rparr> \<noteq> 0
   \<and> value_of (create_model_metadata (demo_platform False (Some ''Permission denied'') 0)
                 ''fin_disease.pth'' (world_with_file ''fin_disease.pth'' 1550)) = Some None
   \<and> (\<exists>status. System ''zip -r fin_disease.zip fin_disease.pth'' status
                  \<in> set (new_events (world_with_file ''fin_disease.pth'' 1550)
                            (world_of (script (demo_platform False (Some ''Permission denied'') 0)
                                         (world_with_file ''fin_disease.pth'' 1550)))))
   \<and> exit_code (script (demo_platform False (Some ''Permission denied'') 0)
                  (world_with_file ''fin_disease.pth'' 1550)) = 0"
proof -
  let ?p = "demo_platform False (Some ''Permission denied'') 0"
  let ?w = "world_with_file ''fin_disease.pth'' 1550"
  let ?f = "\<lparr>st_size = 1550, st_ctime = 1700000000\<rparr>"
  have h1: "files ?w ''fin_disease.pth'' = Some ?f"
    by (simp add: world_with_file_def)
  have h2: "write_file ?p (metadata_path_of ''fin_disease.pth'')
              (metadata_content ?p ?w ''fin_disease.pth'' (st_ctime ?f)) (files ?w)
              = (Some ''Permission denied'', files ?w)"
    by (simp add: demo_platform_def)
  have h3: "st_size ?f \<noteq> 0"
    by simp
  note inst = metadata_write_failure_not_fatal [OF h1 h2, of "''fin_disease.zip''"]
  have c1: "value_of (create_model_metadata ?p ''fin_disease.pth'' ?w) = Some None"
    using inst by simp
  have c2: "\<exists>status. System ''zip -r fin_disease.zip fin_disease.pth'' status
                  \<in> set (new_events ?w (world_of (script ?p ?w)))"
    using inst h3 by simp
  show ?thesis
    using h1 h2 h3 c1 c2 demo_write_failure_exit by (intro conjI)
qed

lemma sublist_third: "sublist x (a @ b @ c @ x @ d)"
  using sublist_appendI [of x "a @ b @ c" d] by simp

lemma sublist_last: "sublist x (a @ b @ c @ d @ e @ x)"
  using sublist_append_leftI [of x "a @ b @ c @ d @ e"] by simp

lemma zip_command_eq:
  assumes "mp = None \<or> mp = Some (metadata_path_of m)"
  shows "zip_command w z m mp
           = ''zip -r '' @ z @ '' '' @ m
             @ (if \<exists>x. mp = Some x \<and> os_path_exists w x
                then '' '' @ metadata_path_of m else [])"
  using assms by (auto simp add: zip_command_def metadata_path_of_def)

text \<open>
  C10. With \<open>wv\<close> the world after a validation that passed and \<open>metadata_path\<close>, \<open>w2\<close> what
  \<open>create_model_metadata\<close> returned and left behind, the one shell command of
  \<open>create_zip_archive\<close> is \<open>zip -r\<close>, the archive name and the model path, and the metadata
  path is appended to it if and only if metadata creation returned a path and that path
  exists. So the command always contains the model path, and contains the metadata path
  whenever a path was returned and exists. Read as plain substrings, it contains the
  metadata path only then whenever the command without it does not contain the metadata
  path already, as is the case for the names \<open>main\<close> passes.
\<close>

theorem zip_command_contents:
  assumes "validate_model_file p model_path (print (package_sign @ '' Creating zip file...'') w)
             = Return True wv"
    and "create_model_metadata p model_path wv = Return metadata_path w2"
  shows "(\<exists>status.
            filter is_system (new_events w (world_of (create_zip_archive p model_path zip_name w)))
              = [System (zip_command w2 zip_name model_path metadata_path) status])
         \<and> zip_command w2 zip_name model_path metadata_path
             = ''zip -r '' @ zip_name @ '' '' @ model_path
               @ (if \<exists>m. metadata_path = Some m \<and> os_path_exists w2 m
                  then '' '' @ metadata_path_of model_path else [])
         \<and> sublist model_path (zip_command w2 zip_name model_path metadata_path)
         \<and> ((\<exists>m. metadata_path = Some m \<and> os_path_exists w2 m) \<longrightarrow>
               sublist (metadata_path_of model_path)
                 (zip_command w2 zip_name model_path metadata_path))
         \<and> (\<not> sublist (metadata_path_of model_path) (''zip -r '' @ zip_name @ '' '' @ model_path) \<longrightarrow>
               (sublist (metadata_path_of model_path)
                  (zip_command w2 zip_name model_path metadata_path)
                \<longleftrightarrow> (\<exists>m. metadata_path = Some m \<and> os_path_exists w2 m)))
         \<and> (zip_command w2 zip_name model_path metadata_path
               = ''zip -r '' @ zip_name @ '' '' @ model_path @ '' '' @ metadata_path_of model_path
             \<longleftrightarrow> (\<exists>m. metadata_path = Some m \<and> os_path_exists w2 m))
         \<and> (zip_command w2 zip_name model_path metadata_path
               = ''zip -r '' @ zip_name @ '' '' @ model_path
             \<longleftrightarrow> \<not> (\<exists>m. metadata_path = Some m \<and> os_path_exists w2 m))
         \<and> (model_path = ''fin_disease.pth'' \<longrightarrow> zip_name = ''fin_disease.zip'' \<longrightarrow>
               (sublist (metadata_path_of model_path)
                  (zip_command w2 zip_name model_path metadata_path)
                \<longleftrightarrow> (\<exists>m. metadata_path = Some m \<and> os_path_exists w2 m)))"
proof -
  let ?cmd = "zip_command w2 zip_name model_path metadata_path"
  let ?attached = "\<exists>m. metadata_path = Some m \<and> os_path_exists w2 m"
  have "value_of (validate_model_file p model_path
                    (print (package_sign @ '' Creating zip file...'') w)) = Some True"
    by (simp add: assms(1))
  then obtain f where f: "files w model_path = Some f" and nz: "st_size f \<noteq> 0"
    by (auto simp add: validate_model_file_True_iff)
  have wv: "wv = print (check_mark @ '' Model file validated: '' @ model_path @ '' (''
                          @ get_file_size_mb p w model_path @ '')'')
                   (print (package_sign @ '' Creating zip file...'') w)"
    using assms(1) f nz by (simp add: validate_model_file_ok)
  have both: "(metadata_path = None \<or> metadata_path = Some (metadata_path_of model_path))
              \<and> (\<exists>status. filter is_system
                    (new_events w (world_of (create_zip_archive p model_path zip_name w)))
                    = [System ?cmd status])"
  proof (rule create_zip_archive_valid_run [OF f nz, of p zip_name])
    fix mp' w2' msg and status :: int and fs :: filesystem
    assume cm: "create_model_metadata p model_path
       (print (check_mark @ '' Model file validated: '' @ model_path @ '' (''
                 @ get_file_size_mb p w model_path @ '')'')
          (print (package_sign @ '' Creating zip file...'') w)) = Return mp' w2'"
      and mp: "mp' = None \<or> mp' = Some (metadata_path_of model_path)"
      and tr: "trace w2' = trace w @
           [Print (package_sign @ '' Creating zip file...''),
            Print (check_mark @ '' Model file validated: '' @ model_path @ '' (''
                     @ get_file_size_mb p w model_path @ '')''),
            WriteFile (metadata_path_of model_path)
              (metadata_content p w model_path (st_ctime f)),
            Print msg]"
      and run: "create_zip_archive p model_path zip_name w
           = (if status \<noteq> 0
              then Return False
                     (print (cross_mark @ '' Error: Failed to create zip file (exit code: ''
                               @ str_int status @ '')'')
                        (w2'\<lparr>files := fs,
                             trace := trace w2' @ [System (zip_command w2' zip_name model_path mp') status]\<rparr>))
              else Return True
                     (w2'\<lparr>files := fs,
                          trace := trace w2' @ [System (zip_command w2' zip_name model_path mp') status]\<rparr>))"
    from cm assms(2) have same: "mp' = metadata_path" "w2' = w2"
      unfolding wv [symmetric] by simp_all
    have "filter is_system
            (new_events w (world_of (create_zip_archive p model_path zip_name w)))
            = [System ?cmd status]"
      unfolding run same [symmetric]
      by (simp add: new_events_def tr)
    then show ?thesis
      using mp same by (intro conjI exI [of _ status]) simp_all
  qed
  then have mp: "metadata_path = None \<or> metadata_path = Some (metadata_path_of model_path)"
    and ev: "\<exists>status. filter is_system
                    (new_events w (world_of (create_zip_archive p model_path zip_name w)))
                    = [System ?cmd status]"
    by simp_all
  note eq = zip_command_eq [OF mp, where w = w2 and z = zip_name]
  have model: "sublist model_path ?cmd"
    unfolding eq by (rule sublist_third)
  have attached: "sublist (metadata_path_of model_path) ?cmd" if ?attached
  proof -
    have "?cmd = ''zip -r '' @ zip_name @ '' '' @ model_path
                   @ '' '' @ metadata_path_of model_path"
      unfolding eq by (simp only: that if_True)
    then show ?thesis
      by (simp only: sublist_last)
  qed
  have only: "?attached" if "sublist (metadata_path_of model_path) ?cmd"
    and "\<not> sublist (metadata_path_of model_path) (''zip -r '' @ zip_name @ '' '' @ model_path)"
  proof (rule ccontr)
    assume "\<not> ?attached"
    then have "?cmd = ''zip -r '' @ zip_name @ '' '' @ model_path"
      unfolding eq by simp
    with that show False
      by simp
  qed
  have appended: "?cmd = ''zip -r '' @ zip_name @ '' '' @ model_path
                           @ '' '' @ metadata_path_of model_path \<longleftrightarrow> ?attached"
    unfolding eq by (cases ?attached) simp_all
  have bare: "?cmd = ''zip -r '' @ zip_name @ '' '' @ model_path \<longleftrightarrow> \<not> ?attached"
    unfolding eq by (cases ?attached) simp_all
  have fixed: "sublist (metadata_path_of model_path) ?cmd \<longleftrightarrow> ?attached"
    if m: "model_path = ''fin_disease.pth''" and z: "zip_name = ''fin_disease.zip''"
  proof
    have "\<not> sublist (metadata_path_of model_path)
              (''zip -r '' @ zip_name @ '' '' @ model_path)"
      unfolding m z by (rule demo_command_without_metadata)
    moreover assume "sublist (metadata_path_of model_path) ?cmd"
    ultimately show ?attached
      by (rule only [rotated])
  next
    assume ?attached
    then show "sublist (metadata_path_of model_path) ?cmd"
      by (rule attached)
  qed
  have first: "(\<exists>status.
            filter is_system (new_events w (world_of (create_zip_archive p model_path zip_name w)))
              = [System ?cmd status])
         \<and> ?cmd = ''zip -r '' @ zip_name @ '' '' @ model_path
               @ (if ?attached then '' '' @ metadata_path_of model_path else [])
         \<and> sublist model_path ?cmd
         \<and> (?attached \<longrightarrow> sublist (metadata_path_of model_path) ?cmd)
         \<and> (\<not> sublist (metadata_path_of model_path) (''zip -r '' @ zip_name @ '' '' @ model_path) \<longrightarrow>
               (sublist (metadata_path_of model_path) ?cmd \<longleftrightarrow> ?attached))"
    using ev eq model attached only by (intro conjI impI iffI)
  from fixed have fixed': "model_path = ''fin_disease.pth'' \<longrightarrow> zip_name = ''fin_disease.zip'' \<longrightarrow>
               (sublist (metadata_path_of model_path) ?cmd \<longleftrightarrow> ?attached)"
    by (intro impI)
  from first appended bare fixed' show ?thesis
    by (intro conjI) (elim conjE, assumption)+
qed

theorem zip_command_contents_witness:
  "validate_model_file (demo_platform False None 0) ''fin_disease.pth''
     (print (package_sign @ '' Creating zip file...'') (world_with_file ''fin_disease.pth'' 1550))
     = Return True
         (world_of (validate_model_file (demo_platform False None 0) ''fin_disease.pth''
            (print (package_sign @ '' Creating zip file...'')
               (world_with_file ''fin_disease.pth'' 1550))))
   \<and> create_model_metadata (demo_platform False None 0) ''fin_disease.pth''
       (world_of (validate_model_file (demo_platform False None 0) ''fin_disease.pth''
          (print (package_sign @ '' Creating zip file...'')
             (world_with_file ''fin_disease.pth'' 1550))))
       = Return (Some ''fin_disease_info.txt'')
           (world_of (create_model_metadata (demo_platform False None 0) ''fin_disease.pth''
              (world_of (validate_model_file (demo_platform False None 0) ''fin_disease.pth''
                 (print (package_sign @ '' Creating zip file...'')
                    (world_with_file ''fin_disease.pth'' 1550))))))
   \<and> os_path_exists
       (world_of (create_model_metadata (demo_platform False None 0) ''fin_disease.pth''
          (world_of (validate_model_file (demo_platform False None 0) ''fin_disease.pth''
             (print (package_sign @ '' Creating zip file...'')
                (world_with_file ''fin_disease.pth'' 1550))))))
       ''fin_disease_info.txt''
   \<and> \<not> sublist (metadata_path_of ''fin_disease.pth'')
         (''zip -r '' @ ''fin_disease.zip'' @ '' '' @ ''fin_disease.pth'')
   \<and> sublist (metadata_path_of ''fin_disease.pth'')
       (zip_command
          (world_of (create_model_metadata (demo_platform False None 0) ''fin_disease.pth''
             (world_of (validate_model_file (demo_platform False None 0) ''fin_disease.pth''
                (print (package_sign @ '' Creating zip file...'')
                   (world_with_file ''fin_disease.pth'' 1550))))))
          ''fin_disease.zip'' ''fin_disease.pth'' (Some ''fin_disease_info.txt''))
   \<and> sublist ''fin_disease.pth''
       (zip_command
          (world_of (create_model_metadata (demo_platform False None 0) ''fin_disease.pth''
             (world_of (validate_model_file (demo_platform False None 0) ''fin_disease.pth''
                (print (package_sign @ '' Creating zip file...'')
                   (world_with_file ''fin_disease.pth'' 1550))))))
          ''fin_disease.zip'' ''fin_disease.pth'' (Some ''fin_disease_info.txt''))
   \<and> zip_command
        (world_of (create_model_metadata (demo_platform False None 0) ''fin_disease.pth''
           (world_of (validate_model_file (demo_platform False None 0) ''fin_disease.pth''
              (print (package_sign @ '' Creating zip file...'')
                 (world_with_file ''fin_disease.pth'' 1550))))))
        ''fin_disease.zip'' ''fin_disease.pth'' (Some ''fin_disease_info.txt'')
       = ''zip -r fin_disease.zip fin_disease.pth fin_disease_info.txt''"
proof -
  let ?p = "demo_platform False None 0"
  let ?wv = "world_of (validate_model_file ?p ''fin_disease.pth''
               (print (package_sign @ '' Creating zip file...'')
                  (world_with_file ''fin_disease.pth'' 1550)))"
  let ?w2 = "world_of (create_model_metadata ?p ''fin_disease.pth'' ?wv)"
  note h = demo_archive_command
  have attached: "\<exists>m. Some ''fin_disease_info.txt'' = Some m \<and> os_path_exists ?w2 m"
    using h(3) by simp
  note inst = zip_command_contents [OF h(1) h(2), of "''fin_disease.zip''"]
  from inst
  have "(\<exists>m. Some ''fin_disease_info.txt'' = Some m \<and> os_path_exists ?w2 m) \<longrightarrow>
          sublist (metadata_path_of ''fin_disease.pth'')
            (zip_command ?w2 ''fin_disease.zip'' ''fin_disease.pth'' (Some ''fin_disease_info.txt''))"
    by (elim conjE)
  from this attached
  have a: "sublist (metadata_path_of ''fin_disease.pth'')
             (zip_command ?w2 ''fin_disease.zip'' ''fin_disease.pth'' (Some ''fin_disease_info.txt''))"
    by (rule mp)
  from inst
  have b: "sublist ''fin_disease.pth''
             (zip_command ?w2 ''fin_disease.zip'' ''fin_disease.pth'' (Some ''fin_disease_info.txt''))"
    by (elim conjE)
  from inst
  have "zip_command ?w2 ''fin_disease.zip'' ''fin_disease.pth'' (Some ''fin_disease_info.txt'')
          = ''zip -r '' @ ''fin_disease.zip'' @ '' '' @ ''fin_disease.pth''
            @ '' '' @ metadata_path_of ''fin_disease.pth''
        \<longleftrightarrow> (\<exists>m. Some ''fin_disease_info.txt'' = Some m \<and> os_path_exists ?w2 m)"
    by (elim conjE)
  from this attached
  have "zip_command ?w2 ''fin_disease.zip'' ''fin_disease.pth'' (Some ''fin_disease_info.txt'')
          = ''zip -r '' @ ''fin_disease.zip'' @ '' '' @ ''fin_disease.pth''
            @ '' '' @ metadata_path_of ''fin_disease.pth''"
    by (rule iffD2)
  then have c: "zip_command ?w2 ''fin_disease.zip'' ''fin_disease.pth''
                  (Some ''fin_disease_info.txt'')
                = ''zip -r fin_disease.zip fin_disease.pth fin_disease_info.txt''"
    by (simp add: metadata_path_of_model)
  show ?thesis
    using h(1) h(2) h(3) demo_command_without_metadata a b c by (intro conjI)
qed

end